theory Spec2Isabelle
  imports Complex_Main "HOL-Library.Log_Nat"
begin

text \<open>
  A model of the item catalogue service: the value objects and the item entity of the
  domain, the repository on the PostgreSQL table of items, and the use cases
  \<open>CreateItem\<close>, \<open>GetItemByID\<close> and \<open>SearchItems\<close>; then what holds of them.
\<close>

section \<open>Strings\<close>

text \<open>
  A Go string is a sequence of bytes, and \<open>len\<close> counts bytes; so a string is a
  \<open>char list\<close> here and \<open>length\<close> is \<open>len\<close>.

  \<open>strings.ToUpper\<close>, \<open>strings.ToLower\<close> and \<open>strings.TrimSpace\<close> work on the
  Unicode code points that the bytes encode. They are not defined here: they are fields of
  the platform record below, and what is proved of the program holds whatever these three
  functions are. The functions \<open>ascii_ToUpper\<close>, \<open>ascii_ToLower\<close> and
  \<open>ascii_TrimSpace\<close> of this section are what the Go functions compute on a string of
  ASCII bytes: the first two map the 26 letters, the third removes the six ASCII white
  space bytes at both ends. They serve to run the model on ASCII inputs.
\<close>

definition upper_char :: "char \<Rightarrow> char" where
  "upper_char c =
     (case map_of (zip ''abcdefghijklmnopqrstuvwxyz'' ''ABCDEFGHIJKLMNOPQRSTUVWXYZ'') c of
        Some u \<Rightarrow> u
      | None \<Rightarrow> c)"

definition lower_char :: "char \<Rightarrow> char" where
  "lower_char c =
     (case map_of (zip ''ABCDEFGHIJKLMNOPQRSTUVWXYZ'' ''abcdefghijklmnopqrstuvwxyz'') c of
        Some l \<Rightarrow> l
      | None \<Rightarrow> c)"

definition ascii_ToUpper :: "string \<Rightarrow> string" where
  "ascii_ToUpper s = map upper_char s"

definition ascii_ToLower :: "string \<Rightarrow> string" where
  "ascii_ToLower s = map lower_char s"

definition isSpace :: "char \<Rightarrow> bool" where
  \<comment> \<open>tab, line feed, vertical tab, form feed, carriage return, space\<close>
  "isSpace c = (c \<in> set [CHR 0x09, CHR 0x0A, CHR 0x0B, CHR 0x0C, CHR 0x0D, CHR 0x20])"

definition ascii_TrimSpace :: "string \<Rightarrow> string" where
  "ascii_TrimSpace s = rev (dropWhile isSpace (rev (dropWhile isSpace s)))"

fun HasPrefix :: "string \<Rightarrow> string \<Rightarrow> bool" where
  "HasPrefix s [] = True"
| "HasPrefix [] (p # ps) = False"
| "HasPrefix (c # cs) (p # ps) = (c = p \<and> HasPrefix cs ps)"

fun Contains :: "string \<Rightarrow> string \<Rightarrow> bool" where
  "Contains [] sub = (sub = [])"
| "Contains (c # cs) sub = (HasPrefix (c # cs) sub \<or> Contains cs sub)"

definition ReplaceAll_char :: "string \<Rightarrow> char \<Rightarrow> char \<Rightarrow> string" where
  \<comment> \<open>\<open>strings.ReplaceAll(s, old, new)\<close> for one-byte \<open>old\<close> and \<open>new\<close>\<close>
  "ReplaceAll_char s old new = map (\<lambda>c. if c = old then new else c) s"

section \<open>Domain errors (package item)\<close>

text \<open>
  An error value is the kind of error together with its message. \<open>DomainError\<close> is
  the domain's error type; \<open>ErrorString\<close> is what \<open>errors.New\<close> and a
  \<open>fmt.Errorf\<close> without \<open>%w\<close> build; \<open>Wrap p e\<close> is
  \<open>fmt.Errorf("p: %w", e)\<close>.
\<close>

datatype pg_error =
    UniqueViolation string
  | CheckViolation string
  | StringDataRightTruncation string
  | NumericValueOutOfRange string
  | InvalidTextRepresentation string

datatype error =
    DomainError string
  | ErrorString string
  | Wrap string error
  | DriverError pg_error
  | ErrNoRows
  | Panic string

text \<open>
  \<open>DriverError\<close> is an error that the database driver returns for a statement the
  table rejects, \<open>ErrNoRows\<close> is \<open>sql.ErrNoRows\<close>, \<open>Panic\<close> is a run-time panic.
\<close>

definition NewDomainError :: "string \<Rightarrow> error" where
  "NewDomainError message = DomainError message"

section \<open>The platform: float64, strings, UUIDs, the clock\<close>

text \<open>
  What the program takes from the Go run time and its libraries is a record that every
  function using it takes as its first argument; the type \<open>'f\<close> is \<open>float64\<close>.
  \<open>f_lit q\<close> is the \<open>float64\<close> that the decimal constant \<open>q\<close> denotes,
  \<open>f_less\<close> and \<open>f_le\<close> are \<open><\<close> and \<open><=\<close>, \<open>f_mul\<close> and \<open>f_div\<close> are
  \<open>*\<close> and \<open>/\<close>, \<open>f_of_int64\<close> is the conversion \<open>float64(n)\<close>,
  \<open>f_to_int64\<close> the conversion \<open>int64(x)\<close>, \<open>f_fmt2\<close> the formatting verb
  \<open>%.2f\<close>. \<open>ToUpper\<close>, \<open>ToLower\<close> and \<open>TrimSpace\<close> are the functions of
  package \<open>strings\<close>. \<open>uuid_Parse\<close> says on which strings \<open>uuid.Parse\<close> of
  github.com/google/uuid succeeds. A theorem stated for every platform \<open>P\<close> holds
  whatever these are; two platforms to compute with are defined further down.
\<close>

record 'f platform =
  ToUpper :: "string \<Rightarrow> string"
  ToLower :: "string \<Rightarrow> string"
  TrimSpace :: "string \<Rightarrow> string"
  f_lit :: "rat \<Rightarrow> 'f"
  f_less :: "'f \<Rightarrow> 'f \<Rightarrow> bool"
  f_le :: "'f \<Rightarrow> 'f \<Rightarrow> bool"
  f_mul :: "'f \<Rightarrow> 'f \<Rightarrow> 'f"
  f_div :: "'f \<Rightarrow> 'f \<Rightarrow> 'f"
  f_of_int64 :: "int \<Rightarrow> 'f"
  f_to_int64 :: "'f \<Rightarrow> int"
  f_fmt2 :: "'f \<Rightarrow> string"
  uuid_Parse :: "string \<Rightarrow> bool"

text \<open>
  \<open>time.Now()\<close> and \<open>uuid.New()\<close> read the world. The world holds the readings the
  clock will give and the identifiers the generator will give, with a count of how many
  of each have been taken; each call takes the next one.
\<close>

type_synonym time = nat

record world =
  clock :: "nat \<Rightarrow> time"
  clock_reads :: nat
  uuid_source :: "nat \<Rightarrow> string"
  uuids_drawn :: nat

definition time_Now :: "world \<Rightarrow> time \<times> world" where
  "time_Now w = (clock w (clock_reads w), w\<lparr>clock_reads := Suc (clock_reads w)\<rparr>)"

definition uuid_New_String :: "world \<Rightarrow> string \<times> world" where
  \<comment> \<open>\<open>uuid.New().String()\<close>\<close>
  "uuid_New_String w = (uuid_source w (uuids_drawn w), w\<lparr>uuids_drawn := Suc (uuids_drawn w)\<rparr>)"

section \<open>Value objects (package item)\<close>

subsection \<open>SKU\<close>

datatype SKU = SKU (sku_value: string)

definition sku_charset :: "char \<Rightarrow> bool" where
  \<comment> \<open>the character class \<open>[A-Z0-9-_]\<close>\<close>
  "sku_charset c = (c \<in> set ''ABCDEFGHIJKLMNOPQRSTUVWXYZ0123456789-_'')"

definition sku_regexp_match :: "string \<Rightarrow> bool" where
  \<comment> \<open>\<open>regexp.MatchString("^[A-Z0-9-_]+$", sku)\<close>\<close>
  "sku_regexp_match sku = (sku \<noteq> [] \<and> list_all sku_charset sku)"

definition validateSKU :: "string \<Rightarrow> error option" where
  "validateSKU sku =
     (if sku = [] then Some (NewDomainError ''SKU cannot be empty'')
      else if length sku < 3 \<or> length sku > 20
        then Some (NewDomainError ''SKU must be between 3 and 20 characters'')
      else if \<not> sku_regexp_match sku
        then Some (NewDomainError
          ''SKU can only contain uppercase letters, numbers, hyphens, and underscores'')
      else None)"

definition NewSKU :: "'f platform \<Rightarrow> string \<Rightarrow> error + SKU" where
  "NewSKU P s =
     (let sku = TrimSpace P (ToUpper P s)
      in case validateSKU sku of Some err \<Rightarrow> Inl err | None \<Rightarrow> Inr (SKU sku))"

subsection \<open>Status\<close>

datatype Status = StatusActive | StatusInactive | StatusDraft | StatusArchived

fun Status_String :: "Status \<Rightarrow> string" where
  "Status_String StatusActive = ''active''"
| "Status_String StatusInactive = ''inactive''"
| "Status_String StatusDraft = ''draft''"
| "Status_String StatusArchived = ''archived''"

definition StatusFromString :: "'f platform \<Rightarrow> string \<Rightarrow> error + Status" where
  "StatusFromString P status =
     (let l = ToLower P status
      in if l = ''active'' then Inr StatusActive
         else if l = ''inactive'' then Inr StatusInactive
         else if l = ''draft'' then Inr StatusDraft
         else if l = ''archived'' then Inr StatusArchived
         else Inl (NewDomainError (''invalid status: '' @ status)))"

subsection \<open>ItemID\<close>

datatype ItemID = ItemID (id_value: string)

definition NewItemID :: "world \<Rightarrow> ItemID \<times> world" where
  "NewItemID w = (let (u, w') = uuid_New_String w in (ItemID u, w'))"

definition NewItemIDFromString :: "'f platform \<Rightarrow> string \<Rightarrow> error + ItemID" where
  "NewItemIDFromString P s =
     (if \<not> uuid_Parse P s then Inl (NewDomainError ''invalid item ID format'')
      else Inr (ItemID s))"

subsection \<open>Price\<close>

text \<open>The amount is an \<open>int64\<close> number of cents.\<close>

datatype Price = Price (price_amount: int) (price_currency: string)

definition NewPrice :: "'f platform \<Rightarrow> 'f \<Rightarrow> string \<Rightarrow> error + Price" where
  "NewPrice P amount currency =
     (if f_less P amount (f_lit P 0) then Inl (NewDomainError ''price cannot be negative'')
      else
        let currency1 = (if currency = [] then ''USD'' else currency);
            currency2 = ToUpper P currency1;
            amountInCents = f_to_int64 P (f_mul P amount (f_lit P 100))
        in Inr (Price amountInCents currency2))"

definition Price_Amount :: "'f platform \<Rightarrow> Price \<Rightarrow> 'f" where
  "Price_Amount P p = f_div P (f_of_int64 P (price_amount p)) (f_lit P 100)"

subsection \<open>Category\<close>

datatype Category = Category (category_name: string) (category_slug: string)

definition NewCategory :: "'f platform \<Rightarrow> string \<Rightarrow> error + Category" where
  "NewCategory P name0 =
     (let name1 = TrimSpace P name0
      in if name1 = [] then Inl (NewDomainError ''category name cannot be empty'')
         else Inr (Category name1
                     (ToLower P (ReplaceAll_char name1 (CHR '' '') (CHR ''-'')))))"

subsection \<open>Inventory\<close>

datatype Inventory = Inventory (inventory_quantity: int)

definition NewInventory :: "int \<Rightarrow> error + Inventory" where
  "NewInventory quantity =
     (if quantity < 0 then Inl (NewDomainError ''inventory quantity cannot be negative'')
      else Inr (Inventory quantity))"

definition IsAvailable :: "Inventory \<Rightarrow> bool" where
  "IsAvailable i = (inventory_quantity i > 0)"

subsection \<open>Image\<close>

datatype Image = Image (image_url: string) (image_alt: string) (image_isPrimary: bool)

definition NewImage :: "string \<Rightarrow> string \<Rightarrow> bool \<Rightarrow> error + Image" where
  "NewImage url alt isPrimary =
     (if url = [] then Inl (NewDomainError ''image URL cannot be empty'')
      else Inr (Image url alt isPrimary))"

subsection \<open>Attributes\<close>

text \<open>
  The Go map of attributes is an association list with one entry for each key; an
  assignment \<open>data[key] = value\<close> replaces the entry of the key or adds one.
\<close>

datatype Attributes = Attributes (attributes_data: "(string \<times> string) list")

fun map_assign :: "(string \<times> string) list \<Rightarrow> string \<Rightarrow> string \<Rightarrow> (string \<times> string) list" where
  "map_assign [] k v = [(k, v)]"
| "map_assign ((k', v') # al) k v =
     (if k' = k then (k, v) # al else (k', v') # map_assign al k v)"

definition NewAttributes :: Attributes where
  "NewAttributes = Attributes []"

definition Attributes_Set ::
  "'f platform \<Rightarrow> Attributes \<Rightarrow> string \<Rightarrow> string \<Rightarrow> error + Attributes" where
  "Attributes_Set P a key0 value0 =
     (let key1 = TrimSpace P key0; value1 = TrimSpace P value0
      in if key1 = [] then Inl (NewDomainError ''attribute key cannot be empty'')
         else Inr (Attributes (map_assign (attributes_data a) key1 value1)))"

definition Attributes_All :: "Attributes \<Rightarrow> (string \<times> string) list" where
  "Attributes_All a = attributes_data a"

section \<open>The item entity (package item)\<close>

record Item =
  item_id :: ItemID
  sku :: SKU
  name :: string
  description :: string
  price :: Price
  category :: Category
  inventory :: Inventory
  images :: "Image list"
  attributes :: Attributes
  status :: Status
  createdAt :: time
  updatedAt :: time

definition NewItem ::
  "SKU \<Rightarrow> string \<Rightarrow> string \<Rightarrow> Price \<Rightarrow> Category \<Rightarrow> world \<Rightarrow> (error + Item) \<times> world" where
  "NewItem sku0 name0 description0 price0 category0 w =
     (if name0 = [] then (Inl (NewDomainError ''item name cannot be empty''), w)
      else
        let (id0, w1) = NewItemID w;
            (created, w2) = time_Now w1;
            (updated, w3) = time_Now w2
        in (Inr \<lparr> item_id = id0, sku = sku0, name = name0, description = description0,
                  price = price0, category = category0, inventory = Inventory 0,
                  images = [], attributes = NewAttributes, status = StatusDraft,
                  createdAt = created, updatedAt = updated \<rparr>, w3))"

text \<open>The setters. Each one assigns its field and then \<open>updatedAt = time.Now()\<close>.\<close>

definition SetName :: "string \<Rightarrow> Item \<Rightarrow> world \<Rightarrow> Item \<times> world" where
  "SetName name0 i w = (let (t, w') = time_Now w in (i\<lparr>name := name0, updatedAt := t\<rparr>, w'))"

definition SetDescription :: "string \<Rightarrow> Item \<Rightarrow> world \<Rightarrow> Item \<times> world" where
  "SetDescription desc i w =
     (let (t, w') = time_Now w in (i\<lparr>description := desc, updatedAt := t\<rparr>, w'))"

definition SetPrice :: "Price \<Rightarrow> Item \<Rightarrow> world \<Rightarrow> Item \<times> world" where
  "SetPrice price0 i w = (let (t, w') = time_Now w in (i\<lparr>price := price0, updatedAt := t\<rparr>, w'))"

definition SetCategory :: "Category \<Rightarrow> Item \<Rightarrow> world \<Rightarrow> Item \<times> world" where
  "SetCategory category0 i w =
     (let (t, w') = time_Now w in (i\<lparr>category := category0, updatedAt := t\<rparr>, w'))"

definition SetInventory :: "Inventory \<Rightarrow> Item \<Rightarrow> world \<Rightarrow> Item \<times> world" where
  "SetInventory inventory0 i w =
     (let (t, w') = time_Now w in (i\<lparr>inventory := inventory0, updatedAt := t\<rparr>, w'))"

definition SetStatus :: "Status \<Rightarrow> Item \<Rightarrow> world \<Rightarrow> Item \<times> world" where
  "SetStatus status0 i w =
     (let (t, w') = time_Now w in (i\<lparr>status := status0, updatedAt := t\<rparr>, w'))"

definition SetImages :: "Image list \<Rightarrow> Item \<Rightarrow> world \<Rightarrow> Item \<times> world" where
  "SetImages images0 i w =
     (let (t, w') = time_Now w in (i\<lparr>images := images0, updatedAt := t\<rparr>, w'))"

definition AddImage :: "Image \<Rightarrow> Item \<Rightarrow> world \<Rightarrow> Item \<times> world" where
  "AddImage img i w =
     (let (t, w') = time_Now w in (i\<lparr>images := images i @ [img], updatedAt := t\<rparr>, w'))"

definition ClearImages :: "Item \<Rightarrow> world \<Rightarrow> Item \<times> world" where
  "ClearImages i w = (let (t, w') = time_Now w in (i\<lparr>images := [], updatedAt := t\<rparr>, w'))"

section \<open>The items table (the migration that creates it)\<close>

text \<open>
  A row of the table, as \<open>itemRow\<close> scans it. The two JSONB columns are kept as the
  values their JSON text encodes (a list of image objects, an object of string members):
  \<open>json.Marshal\<close> followed by \<open>json.Unmarshal\<close> gives the value back.
\<close>

datatype imageJSON = imageJSON (json_URL: string) (json_Alt: string) (json_IsPrimary: bool)

record itemRow =
  row_ID :: string
  row_SKU :: string
  row_Name :: string
  row_Description :: string
  row_PriceAmount :: int
  row_PriceCurrency :: string
  row_CategoryName :: string
  row_CategorySlug :: string
  row_InventoryQuantity :: int
  row_Images :: "imageJSON list"
  row_Attributes :: "(string \<times> string) list"
  row_Status :: string
  row_CreatedAt :: time
  row_UpdatedAt :: time

definition hex_digit :: "char \<Rightarrow> bool" where
  "hex_digit c = (c \<in> set ''0123456789abcdefABCDEF'')"

definition canonical_uuid :: "string \<Rightarrow> bool" where
  \<comment> \<open>the form \<open>xxxxxxxx-xxxx-xxxx-xxxx-xxxxxxxxxxxx\<close> of hexadecimal digits\<close>
  "canonical_uuid s =
     (length s = 36 \<and>
      list_all (\<lambda>k. if k \<in> set [8, 13, 18, 23] then s ! k = CHR ''-'' else hex_digit (s ! k))
        [0 ..< 36])"

text \<open>
  The table is the list of its rows, oldest first. \<open>INSERT\<close> adds a row unless a
  column type, a \<open>CHECK\<close> constraint, the primary key or the \<open>UNIQUE\<close> constraint
  on \<open>sku\<close> rejects it. An identifier is accepted in the canonical 36-character form
  and stored with its hexadecimal digits in lower case. (PostgreSQL also reads other
  spellings of a UUID, which \<open>uuid.New\<close> never produces; the model rejects them.)
\<close>

definition items_INSERT :: "itemRow \<Rightarrow> itemRow list \<Rightarrow> pg_error + itemRow list" where
  "items_INSERT r tbl =
     (if \<not> canonical_uuid (row_ID r) then Inl (InvalidTextRepresentation ''uuid'')
      else if length (row_SKU r) > 20 then Inl (StringDataRightTruncation ''sku'')
      else if length (row_Name r) > 255 then Inl (StringDataRightTruncation ''name'')
      else if row_PriceAmount r < - (2 ^ 63) \<or> row_PriceAmount r \<ge> 2 ^ 63
        then Inl (NumericValueOutOfRange ''price_amount'')
      else if length (row_PriceCurrency r) > 3
        then Inl (StringDataRightTruncation ''price_currency'')
      else if length (row_CategoryName r) > 100
        then Inl (StringDataRightTruncation ''category_name'')
      else if length (row_CategorySlug r) > 100
        then Inl (StringDataRightTruncation ''category_slug'')
      else if row_InventoryQuantity r < - (2 ^ 31) \<or> row_InventoryQuantity r \<ge> 2 ^ 31
        then Inl (NumericValueOutOfRange ''inventory_quantity'')
      else if length (row_Status r) > 20 then Inl (StringDataRightTruncation ''status'')
      else if \<not> row_PriceAmount r \<ge> 0 then Inl (CheckViolation ''chk_price_amount_positive'')
      else if \<not> row_InventoryQuantity r \<ge> 0
        then Inl (CheckViolation ''chk_inventory_quantity_non_negative'')
      else if row_Status r \<notin> set [''active'', ''inactive'', ''draft'', ''archived'']
        then Inl (CheckViolation ''chk_status_valid'')
      else if length (row_PriceCurrency r) \<noteq> 3 then Inl (CheckViolation ''chk_currency_length'')
      else if list_ex (\<lambda>r'. row_ID r' = ascii_ToLower (row_ID r)) tbl
        then Inl (UniqueViolation ''items_pkey'')
      else if list_ex (\<lambda>r'. row_SKU r' = row_SKU r) tbl
        then Inl (UniqueViolation ''items_sku_key'')
      else Inr (tbl @ [r\<lparr>row_ID := ascii_ToLower (row_ID r)\<rparr>]))"

definition items_SELECT_by_id :: "string \<Rightarrow> itemRow list \<Rightarrow> error + itemRow" where
  \<comment> \<open>\<open>SELECT ... FROM items WHERE id = $1\<close>, scanned by \<open>QueryRowContext(...).Scan\<close>\<close>
  "items_SELECT_by_id id0 tbl =
     (if \<not> canonical_uuid id0 then Inl (DriverError (InvalidTextRepresentation ''uuid''))
      else case find (\<lambda>r. row_ID r = ascii_ToLower id0) tbl of
             None \<Rightarrow> Inl ErrNoRows
           | Some r \<Rightarrow> Inr r)"

definition items_SELECT_by_sku :: "string \<Rightarrow> itemRow list \<Rightarrow> error + itemRow" where
  \<comment> \<open>\<open>SELECT ... FROM items WHERE sku = $1\<close>\<close>
  "items_SELECT_by_sku sku0 tbl =
     (case find (\<lambda>r. row_SKU r = sku0) tbl of
        None \<Rightarrow> Inl ErrNoRows
      | Some r \<Rightarrow> Inr r)"

definition items_EXISTS_sku :: "string \<Rightarrow> itemRow list \<Rightarrow> bool" where
  \<comment> \<open>\<open>SELECT EXISTS(SELECT 1 FROM items WHERE sku = $1)\<close>\<close>
  "items_EXISTS_sku sku0 tbl = list_ex (\<lambda>r. row_SKU r = sku0) tbl"

section \<open>The PostgreSQL repository (package persistence)\<close>

record 'f postgresItemRepository =
  maxPriceThreshold :: 'f
  minInventoryLevel :: int
  defaultCurrency :: string
  autoDiscountRules :: "(string \<times> 'f) list"

definition NewPostgresItemRepository :: "'f platform \<Rightarrow> 'f postgresItemRepository" where
  "NewPostgresItemRepository P =
     \<lparr> maxPriceThreshold = f_lit P 10000,
       minInventoryLevel = 5,
       defaultCurrency = ''USD'',
       autoDiscountRules =
         [(''electronics'', f_lit P (95 / 100)),
          (''books'', f_lit P (90 / 100)),
          (''clothing'', f_lit P (85 / 100))] \<rparr>"

definition ItemNotFoundError :: "ItemID \<Rightarrow> error" where
  "ItemNotFoundError id0 = DomainError (''item with ID '' @ id_value id0 @ '' not found'')"

definition ItemNotFoundBySKUError :: "SKU \<Rightarrow> error" where
  "ItemNotFoundBySKUError sku0 = DomainError (''item with SKU '' @ sku_value sku0 @ '' not found'')"

definition validateItemBusinessRules ::
  "'f platform \<Rightarrow> 'f postgresItemRepository \<Rightarrow> Item \<Rightarrow> error option" where
  "validateItemBusinessRules P r itm =
     (if f_le P (Price_Amount P (price itm)) (f_lit P 0)
        then Some (ErrorString ''item price must be positive'')
      else if f_less P (maxPriceThreshold r) (Price_Amount P (price itm))
        then Some (ErrorString (''item price '' @ f_fmt2 P (Price_Amount P (price itm)) @
                     '' exceeds maximum threshold '' @ f_fmt2 P (maxPriceThreshold r)))
      else if price_currency (price itm) \<notin> set [''USD'', ''EUR'', ''GBP'', ''JPY'']
        then Some (ErrorString (''unsupported currency: '' @ price_currency (price itm)))
      else if length (name itm) < 3
        then Some (ErrorString ''item name must be at least 3 characters'')
      else if length (name itm) > 200 then Some (ErrorString ''item name too long'')
      else if \<not> Contains (sku_value (sku itm)) ''-''
        then Some (ErrorString ''SKU must contain at least one hyphen'')
      else if category_name (category itm) = ''restricted''
        then Some (ErrorString ''restricted category not allowed'')
      else if inventory_quantity (inventory itm) < 0
        then Some (ErrorString ''inventory quantity cannot be negative'')
      else None)"

text \<open>
  Where the code drops the error of a constructor (\<open>v, _ := NewX(...)\<close>), the value is
  the zero value of the type when the constructor fails.
\<close>

definition Inventory_or_zero :: "error + Inventory \<Rightarrow> Inventory" where
  "Inventory_or_zero r = (case r of Inr v \<Rightarrow> v | Inl _ \<Rightarrow> Inventory 0)"

definition Price_or_zero :: "error + Price \<Rightarrow> Price" where
  "Price_or_zero r = (case r of Inr v \<Rightarrow> v | Inl _ \<Rightarrow> Price 0 [])"

definition applyBusinessCorrections ::
  "'f platform \<Rightarrow> 'f postgresItemRepository \<Rightarrow> Item \<Rightarrow> world \<Rightarrow> Item \<times> world" where
  "applyBusinessCorrections P r itm w =
     (let (itm1, w1) =
            (if inventory_quantity (inventory itm) > 0 \<and>
                inventory_quantity (inventory itm) < minInventoryLevel r
             then SetInventory (Inventory_or_zero (NewInventory (minInventoryLevel r))) itm w
             else (itm, w));
          (itm2, w2) =
            (if price_currency (price itm1) = []
             then SetPrice (Price_or_zero (NewPrice P (Price_Amount P (price itm1))
                                             (defaultCurrency r))) itm1 w1
             else (itm1, w1))
      in if inventory_quantity (inventory itm2) > 100 \<and> status itm2 = StatusDraft
         then SetStatus StatusActive itm2 w2
         else (itm2, w2))"

definition imagesToJSON :: "Image list \<Rightarrow> imageJSON list" where
  "imagesToJSON imgs = map (\<lambda>img. imageJSON (image_url img) (image_alt img) (image_isPrimary img)) imgs"

text \<open>
  \<open>Save\<close> works on the item through a pointer, so the corrections it makes are made
  to the caller's item: the item is returned with the result.
\<close>

definition Save ::
  "'f platform \<Rightarrow> 'f postgresItemRepository \<Rightarrow> Item \<Rightarrow> world \<Rightarrow> itemRow list
     \<Rightarrow> error option \<times> Item \<times> world \<times> itemRow list" where
  "Save P r itm w tbl =
     (case validateItemBusinessRules P r itm of
        Some err \<Rightarrow> (Some (Wrap ''business validation failed'' err), itm, w, tbl)
      | None \<Rightarrow>
          let (adjusted, w1) = applyBusinessCorrections P r itm w;
              (adjustedItem, w2) =
                (case map_of (autoDiscountRules r) (category_name (category adjusted)) of
                   Some discount \<Rightarrow>
                     let originalPrice = Price_Amount P (price adjusted);
                         newPrice = Price_or_zero (NewPrice P (f_mul P originalPrice discount)
                                                     (price_currency (price adjusted)))
                     in SetPrice newPrice adjusted w1
                 | None \<Rightarrow> (adjusted, w1));
              row = \<lparr> row_ID = id_value (item_id adjustedItem),
                      row_SKU = sku_value (sku adjustedItem),
                      row_Name = name adjustedItem,
                      row_Description = description adjustedItem,
                      row_PriceAmount =
                        f_to_int64 P (f_mul P (Price_Amount P (price adjustedItem)) (f_lit P 100)),
                      row_PriceCurrency = price_currency (price adjustedItem),
                      row_CategoryName = category_name (category adjustedItem),
                      row_CategorySlug = category_slug (category adjustedItem),
                      row_InventoryQuantity = inventory_quantity (inventory adjustedItem),
                      row_Images = imagesToJSON (images adjustedItem),
                      row_Attributes = Attributes_All (attributes adjustedItem),
                      row_Status = Status_String (status adjustedItem),
                      row_CreatedAt = createdAt adjustedItem,
                      row_UpdatedAt = updatedAt adjustedItem \<rparr>
          in (case items_INSERT row tbl of
                Inl err \<Rightarrow>
                  (Some (Wrap ''failed to save item'' (DriverError err)), adjustedItem, w2, tbl)
              | Inr tbl' \<Rightarrow> (None, adjustedItem, w2, tbl')))"

fun images_of_JSON :: "imageJSON list \<Rightarrow> error + Image list" where
  "images_of_JSON [] = Inr []"
| "images_of_JSON (imgJSON # rest) =
     (case NewImage (json_URL imgJSON) (json_Alt imgJSON) (json_IsPrimary imgJSON) of
        Inl err \<Rightarrow> Inl (Wrap ''invalid image'' err)
      | Inr img \<Rightarrow>
          (case images_of_JSON rest of Inl err \<Rightarrow> Inl err | Inr imgs \<Rightarrow> Inr (img # imgs)))"

fun attributes_of_JSON ::
  "'f platform \<Rightarrow> Attributes \<Rightarrow> (string \<times> string) list \<Rightarrow> error + Attributes" where
  "attributes_of_JSON P a [] = Inr a"
| "attributes_of_JSON P a ((key, val) # rest) =
     (case Attributes_Set P a key val of
        Inl err \<Rightarrow> Inl (Wrap ''failed to set attribute'' err)
      | Inr a' \<Rightarrow> attributes_of_JSON P a' rest)"

text \<open>
  \<open>rowToItem\<close> converts every column, and then builds the item with \<open>NewItem\<close> from
  the SKU, the name, the description, the price and the category alone. The identifier,
  the inventory, the status, the images and the attributes it has converted are assigned
  to the blank identifier.
\<close>

definition rowToItem :: "'f platform \<Rightarrow> itemRow \<Rightarrow> world \<Rightarrow> (error + Item) \<times> world" where
  "rowToItem P row w =
     (case NewItemIDFromString P (row_ID row) of
        Inl err \<Rightarrow> (Inl (Wrap ''invalid item ID'' err), w)
      | Inr id0 \<Rightarrow>
     (case NewSKU P (row_SKU row) of
        Inl err \<Rightarrow> (Inl (Wrap ''invalid SKU'' err), w)
      | Inr sku0 \<Rightarrow>
     (case NewPrice P (f_div P (f_of_int64 P (row_PriceAmount row)) (f_lit P 100))
             (row_PriceCurrency row) of
        Inl err \<Rightarrow> (Inl (Wrap ''invalid price'' err), w)
      | Inr price0 \<Rightarrow>
     (case NewCategory P (row_CategoryName row) of
        Inl err \<Rightarrow> (Inl (Wrap ''invalid category'' err), w)
      | Inr category0 \<Rightarrow>
     (case NewInventory (row_InventoryQuantity row) of
        Inl err \<Rightarrow> (Inl (Wrap ''invalid inventory'' err), w)
      | Inr inventory0 \<Rightarrow>
     (case StatusFromString P (row_Status row) of
        Inl err \<Rightarrow> (Inl (Wrap ''invalid status'' err), w)
      | Inr status0 \<Rightarrow>
     (case images_of_JSON (row_Images row) of
        Inl err \<Rightarrow> (Inl err, w)
      | Inr images0 \<Rightarrow>
     (case attributes_of_JSON P NewAttributes (row_Attributes row) of
        Inl err \<Rightarrow> (Inl err, w)
      | Inr attributes0 \<Rightarrow>
     (case NewItem sku0 (row_Name row) (row_Description row) price0 category0 w of
        (Inl err, w') \<Rightarrow> (Inl (Wrap ''failed to create item'' err), w')
      | (Inr createdItem, w') \<Rightarrow> (Inr createdItem, w'))))))))))"

definition FindByID ::
  "'f platform \<Rightarrow> ItemID \<Rightarrow> world \<Rightarrow> itemRow list \<Rightarrow> (error + Item) \<times> world \<times> itemRow list" where
  "FindByID P id0 w tbl =
     (case items_SELECT_by_id (id_value id0) tbl of
        Inl err \<Rightarrow>
          (if err = ErrNoRows then (Inl (ItemNotFoundError id0), w, tbl)
           else (Inl (Wrap ''failed to find item by ID'' err), w, tbl))
      | Inr row \<Rightarrow> (let (res, w') = rowToItem P row w in (res, w', tbl)))"

definition FindBySKU ::
  "'f platform \<Rightarrow> SKU \<Rightarrow> world \<Rightarrow> itemRow list \<Rightarrow> (error + Item) \<times> world \<times> itemRow list" where
  "FindBySKU P sku0 w tbl =
     (case items_SELECT_by_sku (sku_value sku0) tbl of
        Inl err \<Rightarrow>
          (if err = ErrNoRows then (Inl (ItemNotFoundBySKUError sku0), w, tbl)
           else (Inl (Wrap ''failed to find item by SKU'' err), w, tbl))
      | Inr row \<Rightarrow> (let (res, w') = rowToItem P row w in (res, w', tbl)))"

definition ExistsBySKU :: "SKU \<Rightarrow> world \<Rightarrow> itemRow list \<Rightarrow> (error + bool) \<times> world \<times> itemRow list" where
  "ExistsBySKU sku0 w tbl = (Inr (items_EXISTS_sku (sku_value sku0) tbl), w, tbl)"

section \<open>Requests and responses (package dto)\<close>

record 'f CreateItemRequest =
  req_SKU :: string
  req_Name :: string
  req_Description :: string
  req_Price :: 'f
  req_Currency :: string
  req_Category :: string
  req_Inventory :: int
  req_Attributes :: "(string \<times> string) list"

datatype CategoryResponse = CategoryResponse (cr_Name: string) (cr_Slug: string)

datatype InventoryResponse = InventoryResponse (ir_Quantity: int) (ir_IsAvailable: bool)

datatype ImageResponse = ImageResponse (im_URL: string) (im_Alt: string) (im_IsPrimary: bool)

record 'f ItemResponse =
  resp_ID :: string
  resp_SKU :: string
  resp_Name :: string
  resp_Description :: string
  resp_Price :: 'f
  resp_Currency :: string
  resp_Category :: CategoryResponse
  resp_Inventory :: InventoryResponse
  resp_Images :: "ImageResponse list"
  resp_Attributes :: "(string \<times> string) list"
  resp_Status :: string
  resp_CreatedAt :: time
  resp_UpdatedAt :: time

record SearchRequest =
  sr_Query :: string
  sr_Category :: string
  sr_Status :: string
  sr_Page :: int
  sr_PageSize :: int

record 'f ItemListResponse =
  lr_Items :: "'f ItemResponse list"
  lr_Total :: int
  lr_Page :: int
  lr_PageSize :: int
  lr_TotalPages :: int

section \<open>The use cases (package usecase)\<close>

text \<open>
  Go's \<open>int\<close> has 64 bits: sums, differences and products wrap around, the quotient
  is rounded towards zero, and a division by zero panics.
\<close>

definition wrap64 :: "int \<Rightarrow> int" where
  "wrap64 x = (x + 2 ^ 63) mod 2 ^ 64 - 2 ^ 63"

definition quo :: "int \<Rightarrow> int \<Rightarrow> int" where
  \<comment> \<open>\<open>a / b\<close> for \<open>b \<noteq> 0\<close>\<close>
  "quo a b = wrap64 (sgn a * sgn b * (\<bar>a\<bar> div \<bar>b\<bar>))"

definition mapItemToResponse :: "'f platform \<Rightarrow> Item \<Rightarrow> 'f ItemResponse" where
  "mapItemToResponse P itm =
     \<lparr> resp_ID = id_value (item_id itm),
       resp_SKU = sku_value (sku itm),
       resp_Name = name itm,
       resp_Description = description itm,
       resp_Price = Price_Amount P (price itm),
       resp_Currency = price_currency (price itm),
       resp_Category = CategoryResponse (category_name (category itm)) (category_slug (category itm)),
       resp_Inventory = InventoryResponse (inventory_quantity (inventory itm))
                                          (IsAvailable (inventory itm)),
       resp_Images = map (\<lambda>img. ImageResponse (image_url img) (image_alt img) (image_isPrimary img))
                         (images itm),
       resp_Attributes = Attributes_All (attributes itm),
       resp_Status = Status_String (status itm),
       resp_CreatedAt = createdAt itm,
       resp_UpdatedAt = updatedAt itm \<rparr>"

text \<open>
  A use case reaches the repository and the category and pricing services through
  interfaces. The methods it calls are arguments of its model: a method of the
  repository takes the world and the state \<open>'s\<close> of the store and returns them with its
  result; \<open>ValidateCategory\<close> and \<open>CalculatePrice\<close> are functions.
\<close>

definition CreateItem ::
  "'f platform \<Rightarrow> (string \<Rightarrow> error option) \<Rightarrow> ('f \<Rightarrow> string \<Rightarrow> error + 'f)
     \<Rightarrow> (SKU \<Rightarrow> world \<Rightarrow> 's \<Rightarrow> (error + bool) \<times> world \<times> 's)
     \<Rightarrow> (Item \<Rightarrow> world \<Rightarrow> 's \<Rightarrow> error option \<times> Item \<times> world \<times> 's)
     \<Rightarrow> 'f CreateItemRequest \<Rightarrow> world \<Rightarrow> 's \<Rightarrow> (error + 'f ItemResponse) \<times> world \<times> 's" where
  "CreateItem P ValidateCategory CalculatePrice repo_ExistsBySKU repo_Save req w s =
     (if req_Name req = [] \<or> length (req_Name req) < 3
        then (Inl (ErrorString ''item name must be at least 3 characters''), w, s)
      else if f_le P (req_Price req) (f_lit P 0)
        then (Inl (ErrorString ''item price must be positive''), w, s)
      else if f_less P (f_lit P 999999) (req_Price req)
        then (Inl (ErrorString ''item price too high''), w, s)
      else if req_SKU req = [] then (Inl (ErrorString ''SKU is required''), w, s)
      else
        let skuUpper = ToUpper P (req_SKU req)
        in
      if length skuUpper < 3 \<or> length skuUpper > 50
        then (Inl (ErrorString ''SKU must be between 3 and 50 characters''), w, s)
      else if req_Category req = [] then (Inl (ErrorString ''category is required''), w, s)
      else
     (case ValidateCategory (req_Category req) of
        Some err \<Rightarrow> (Inl (Wrap ''invalid category'' err), w, s)
      | None \<Rightarrow>
     (case CalculatePrice (req_Price req) (req_Category req) of
        Inl err \<Rightarrow> (Inl (Wrap ''failed to calculate price'' err), w, s)
      | Inr calculated \<Rightarrow>
        let finalPrice =
              (if req_Category req = ''electronics'' then f_mul P calculated (f_lit P (95 / 100))
               else if req_Category req = ''books'' then f_mul P calculated (f_lit P (90 / 100))
               else calculated)
        in
     (case repo_ExistsBySKU (SKU []) w s of
        (Inl err, w1, s1) \<Rightarrow> (Inl (Wrap ''failed to check SKU existence'' err), w1, s1)
      | (Inr exists, w1, s1) \<Rightarrow>
      if exists then (Inl (ErrorString ''item with this SKU already exists''), w1, s1)
      else
     (case NewSKU P skuUpper of
        Inl err \<Rightarrow> (Inl (Wrap ''invalid SKU'' err), w1, s1)
      | Inr sku0 \<Rightarrow>
     (case NewPrice P finalPrice ''USD'' of
        Inl err \<Rightarrow> (Inl (Wrap ''invalid price'' err), w1, s1)
      | Inr price0 \<Rightarrow>
     (case NewCategory P (req_Category req) of
        Inl err \<Rightarrow> (Inl (Wrap ''invalid category'' err), w1, s1)
      | Inr category0 \<Rightarrow>
     (case NewItem sku0 (req_Name req) (req_Description req) price0 category0 w1 of
        (Inl err, w2) \<Rightarrow> (Inl (Wrap ''failed to create item'' err), w2, s1)
      | (Inr domainItem, w2) \<Rightarrow>
        let (item1, w3) =
              (if req_Inventory req > 0
               then SetInventory (Inventory_or_zero (NewInventory (req_Inventory req))) domainItem w2
               else (domainItem, w2));
            (item2, w4) =
              (if f_less P (f_lit P 1000) (req_Price req) then SetStatus StatusDraft item1 w3
               else SetStatus StatusActive item1 w3)
        in
     (case repo_Save item2 w4 s1 of
        (Some err, item3, w5, s2) \<Rightarrow> (Inl (Wrap ''failed to save item'' err), w5, s2)
      | (None, item3, w5, s2) \<Rightarrow> (Inr (mapItemToResponse P item3), w5, s2))))))))))"

definition GetItemByID ::
  "'f platform \<Rightarrow> (ItemID \<Rightarrow> world \<Rightarrow> 's \<Rightarrow> (error + Item) \<times> world \<times> 's)
     \<Rightarrow> string \<Rightarrow> world \<Rightarrow> 's \<Rightarrow> (error + 'f ItemResponse) \<times> world \<times> 's" where
  "GetItemByID P repo_FindByID id0 w s =
     (if id0 = [] then (Inl (ErrorString ''item ID cannot be empty''), w, s)
      else if length id0 \<noteq> 36 then (Inl (ErrorString ''invalid item ID format''), w, s)
      else
     (case NewItemIDFromString P id0 of
        Inl err \<Rightarrow> (Inl (Wrap ''invalid item ID'' err), w, s)
      | Inr itemID \<Rightarrow>
     (case repo_FindByID itemID w s of
        (Inl err, w1, s1) \<Rightarrow> (Inl (Wrap ''failed to find item'' err), w1, s1)
      | (Inr domainItem, w1, s1) \<Rightarrow>
        let response = mapItemToResponse P domainItem
        in if status domainItem = StatusDraft
           then (Inr (response\<lparr>resp_Price := f_lit P 0\<rparr>), w1, s1)
           else (Inr response, w1, s1))))"

text \<open>
  \<open>SearchItems\<close> chooses one query of the repository in its chain of conditions,
  makes it, and builds the page from its result. The chosen query is a value of
  \<open>repo_query\<close>; the model returns, next to the result, the list of the queries that
  were made.
\<close>

datatype repo_query =
    Query_Search string int int
  | Query_FindByCategory Category int int
  | Query_FindByStatus Status int int
  | Query_FindAvailableItems int int

record 's QueryRepository =
  repo_Search :: "string \<Rightarrow> int \<Rightarrow> int \<Rightarrow> world \<Rightarrow> 's \<Rightarrow> (error + Item list) \<times> world \<times> 's"
  repo_FindByCategory ::
    "Category \<Rightarrow> int \<Rightarrow> int \<Rightarrow> world \<Rightarrow> 's \<Rightarrow> (error + Item list) \<times> world \<times> 's"
  repo_FindByStatus ::
    "Status \<Rightarrow> int \<Rightarrow> int \<Rightarrow> world \<Rightarrow> 's \<Rightarrow> (error + Item list) \<times> world \<times> 's"
  repo_FindAvailableItems :: "int \<Rightarrow> int \<Rightarrow> world \<Rightarrow> 's \<Rightarrow> (error + Item list) \<times> world \<times> 's"

fun dispatch ::
  "'s QueryRepository \<Rightarrow> repo_query \<Rightarrow> world \<Rightarrow> 's \<Rightarrow> (error + Item list) \<times> world \<times> 's" where
  "dispatch R (Query_Search q limit offset) = repo_Search R q limit offset"
| "dispatch R (Query_FindByCategory c limit offset) = repo_FindByCategory R c limit offset"
| "dispatch R (Query_FindByStatus st limit offset) = repo_FindByStatus R st limit offset"
| "dispatch R (Query_FindAvailableItems limit offset) = repo_FindAvailableItems R limit offset"

definition SearchItems_choice :: "'f platform \<Rightarrow> SearchRequest \<Rightarrow> error + repo_query" where
  "SearchItems_choice P req =
     (let offset = wrap64 (wrap64 (sr_Page req - 1) * sr_PageSize req)
      in if sr_Query req \<noteq> [] then Inr (Query_Search (sr_Query req) (sr_PageSize req) offset)
         else if sr_Category req \<noteq> [] then
           (case NewCategory P (sr_Category req) of
              Inl categoryErr \<Rightarrow> Inl (Wrap ''invalid category'' categoryErr)
            | Inr category0 \<Rightarrow> Inr (Query_FindByCategory category0 (sr_PageSize req) offset))
         else if sr_Status req \<noteq> [] then
           (case StatusFromString P (sr_Status req) of
              Inl statusErr \<Rightarrow> Inl (Wrap ''invalid status'' statusErr)
            | Inr status0 \<Rightarrow> Inr (Query_FindByStatus status0 (sr_PageSize req) offset))
         else Inr (Query_FindAvailableItems (sr_PageSize req) offset))"

definition SearchItems ::
  "'f platform \<Rightarrow> 's QueryRepository \<Rightarrow> SearchRequest \<Rightarrow> world \<Rightarrow> 's
     \<Rightarrow> (error + 'f ItemListResponse) \<times> repo_query list \<times> world \<times> 's" where
  "SearchItems P R req w s =
     (case SearchItems_choice P req of
        Inl err \<Rightarrow> (Inl err, [], w, s)
      | Inr q \<Rightarrow>
     (case dispatch R q w s of
        (Inl err, w1, s1) \<Rightarrow> (Inl (Wrap ''failed to search items'' err), [q], w1, s1)
      | (Inr items, w1, s1) \<Rightarrow>
        let responses = map (mapItemToResponse P) items
        in if sr_PageSize req = 0 then (Inl (Panic ''integer divide by zero''), [q], w1, s1)
           else
             let totalPages =
                   quo (wrap64 (wrap64 (int (length responses) + sr_PageSize req) - 1))
                       (sr_PageSize req)
             in (Inr \<lparr> lr_Items = responses,
                        lr_Total = int (length responses),
                        lr_Page = sr_Page req,
                        lr_PageSize = sr_PageSize req,
                        lr_TotalPages = totalPages \<rparr>, [q], w1, s1)))"

section \<open>Two platforms and worlds to run the model on\<close>

text \<open>
  Both platforms take the ASCII string functions and a \<open>uuid_Parse\<close> that accepts the
  canonical 36-character form, and both represent a \<open>float64\<close> by the rational number
  it stands for. \<open>exact_arith\<close> computes without rounding. It agrees with \<open>float64\<close>
  wherever every operand and every result is a number that \<open>float64\<close> represents, as
  for the amounts \<open>50\<close> and \<open>5000\<close> used below.

  \<open>float64_arith\<close> rounds as IEEE 754 binary64 does in the default mode: a constant,
  a product, a quotient and a converted integer are each replaced by the nearest number
  with a significand of 53 bits, a tie going to the even significand (\<open>round64\<close>).
  The exponent is not bounded, so the model is that of \<open>float64\<close> for results of
  magnitude between \<open>2^-1022\<close> and \<open>2^1024\<close> and for zero; it has no infinity, no
  NaN and no negative zero. \<open>int64(x)\<close> drops the fraction of \<open>x\<close>; beyond the range
  of \<open>int64\<close> Go leaves the result to the implementation, and the model keeps the
  integer.
\<close>

definition round_half_even :: "rat \<Rightarrow> int" where
  "round_half_even z =
     (let f = \<lfloor>z\<rfloor>; d = z - of_int f
      in if d < 1 / 2 then f else if 1 / 2 < d then f + 1 else if even f then f else f + 1)"

definition ilog2 :: "rat \<Rightarrow> int" where
  \<comment> \<open>for \<open>0 < x\<close>, the exponent \<open>e\<close> with \<open>2^e \<le> x < 2^(e+1)\<close>\<close>
  "ilog2 x = (if 1 \<le> x then bitlen \<lfloor>x\<rfloor> - 1 else - bitlen (\<lceil>1 / x\<rceil> - 1))"

definition round64 :: "rat \<Rightarrow> rat" where
  "round64 x =
     (if x = 0 then 0
      else let u = 2 powi (ilog2 \<bar>x\<bar> - 52)
           in sgn x * of_int (round_half_even (\<bar>x\<bar> / u)) * u)"

definition trunc :: "rat \<Rightarrow> int" where
  "trunc x = (if 0 \<le> x then \<lfloor>x\<rfloor> else \<lceil>x\<rceil>)"

definition digit_char :: "nat \<Rightarrow> char" where
  "digit_char d = ''0123456789'' ! (d mod 10)"

fun show_nat :: "nat \<Rightarrow> string" where
  "show_nat n = (if n < 10 then [digit_char n] else show_nat (n div 10) @ [digit_char (n mod 10)])"

declare show_nat.simps [simp del]

definition fmt2_rat :: "rat \<Rightarrow> string" where
  \<comment> \<open>two decimals, rounded to the nearest, a tie to the even digit\<close>
  "fmt2_rat x =
     (let c = nat (round_half_even (\<bar>x\<bar> * 100))
      in (if x < 0 \<and> c \<noteq> 0 then ''-'' else []) @ show_nat (c div 100) @ ''.'' @
         [digit_char (c div 10 mod 10), digit_char (c mod 10)])"

definition exact_arith :: "rat platform" where
  "exact_arith =
     \<lparr> ToUpper = ascii_ToUpper,
       ToLower = ascii_ToLower,
       TrimSpace = ascii_TrimSpace,
       f_lit = (\<lambda>q. q),
       f_less = (\<lambda>x y. x < y),
       f_le = (\<lambda>x y. x \<le> y),
       f_mul = (\<lambda>x y. x * y),
       f_div = (\<lambda>x y. x / y),
       f_of_int64 = (\<lambda>n. of_int n),
       f_to_int64 = trunc,
       f_fmt2 = fmt2_rat,
       uuid_Parse = canonical_uuid \<rparr>"

definition float64_arith :: "rat platform" where
  "float64_arith =
     \<lparr> ToUpper = ascii_ToUpper,
       ToLower = ascii_ToLower,
       TrimSpace = ascii_TrimSpace,
       f_lit = round64,
       f_less = (\<lambda>x y. x < y),
       f_le = (\<lambda>x y. x \<le> y),
       f_mul = (\<lambda>x y. round64 (x * y)),
       f_div = (\<lambda>x y. round64 (x / y)),
       f_of_int64 = (\<lambda>n. round64 (of_int n)),
       f_to_int64 = trunc,
       f_fmt2 = fmt2_rat,
       uuid_Parse = canonical_uuid \<rparr>"

definition uuid_of_nat :: "nat \<Rightarrow> string" where
  "uuid_of_nat k = ''00000000-0000-4000-8000-0000000000'' @ [digit_char (k div 10), digit_char k]"

definition ticking_world :: world where
  \<comment> \<open>the clock advances by one between two readings\<close>
  "ticking_world =
     \<lparr> clock = (\<lambda>k. 2000 + k), clock_reads = 0, uuid_source = uuid_of_nat, uuids_drawn = 0 \<rparr>"

definition frozen_world :: world where
  \<comment> \<open>the clock gives the same reading every time\<close>
  "frozen_world =
     \<lparr> clock = (\<lambda>k. 1000), clock_reads = 0, uuid_source = uuid_of_nat, uuids_drawn = 0 \<rparr>"

definition widget :: Item where
  "widget =
     \<lparr> item_id = ItemID ''550e8400-e29b-41d4-a716-446655440000'',
       sku = SKU ''TEST-001'',
       name = ''Widget'',
       description = ''A widget'',
       price = Price 5000 ''USD'',
       category = Category ''tools'' ''tools'',
       inventory = Inventory 10,
       images = [Image ''http://img/1.png'' ''front'' True],
       attributes = Attributes [(''color'', ''red'')],
       status = StatusActive,
       createdAt = 900,
       updatedAt = 1000 \<rparr>"

definition new_widget :: "world \<Rightarrow> (error + Item) \<times> world" where
  "new_widget w =
     NewItem (SKU ''TEST-001'') ''Widget'' ''A widget'' (Price 5000 ''USD'')
       (Category ''tools'' ''tools'') w"


text \<open>
  Stand-ins for the repository behind a use case, as the mock of the use-case tests:
  \<open>fixed_repository items\<close> answers every query with \<open>items\<close>, and \<open>found itm\<close>
  is a \<open>FindByID\<close> that finds \<open>itm\<close>.
\<close>

definition fixed_repository :: "Item list \<Rightarrow> unit QueryRepository" where
  "fixed_repository items =
     \<lparr> repo_Search = (\<lambda>q limit offset w s. (Inr items, w, s)),
       repo_FindByCategory = (\<lambda>c limit offset w s. (Inr items, w, s)),
       repo_FindByStatus = (\<lambda>st limit offset w s. (Inr items, w, s)),
       repo_FindAvailableItems = (\<lambda>limit offset w s. (Inr items, w, s)) \<rparr>"

definition found :: "Item \<Rightarrow> ItemID \<Rightarrow> world \<Rightarrow> unit \<Rightarrow> (error + Item) \<times> world \<times> unit" where
  "found itm id0 w s = (Inr itm, w, s)"

text \<open>
  The PostgreSQL repository on an empty table, with a category service that accepts every
  category and a pricing service that returns the base price: \<open>widget\<close> saved, and the
  request for it made once and then a second time.
\<close>

definition saved_widget :: "error option \<times> Item \<times> world \<times> itemRow list" where
  "saved_widget = Save exact_arith (NewPostgresItemRepository exact_arith) widget ticking_world []"






section \<open>Properties of the value objects and of the entity\<close>

lemmas string_defs = ascii_ToUpper_def ascii_ToLower_def upper_char_def lower_char_def
  ascii_TrimSpace_def isSpace_def sku_charset_def

lemma exact_arith_strings:
  "ToUpper exact_arith = ascii_ToUpper"
  "ToLower exact_arith = ascii_ToLower"
  "TrimSpace exact_arith = ascii_TrimSpace"
  by (simp_all add: exact_arith_def)

lemma float64_arith_strings:
  "ToUpper float64_arith = ascii_ToUpper"
  "ToLower float64_arith = ascii_ToLower"
  "TrimSpace float64_arith = ascii_TrimSpace"
  by (simp_all add: float64_arith_def)

lemmas NewItem_defs = NewItem_def NewItemID_def uuid_New_String_def time_Now_def
  NewDomainError_def Let_def

lemmas setter_defs = SetName_def SetDescription_def SetPrice_def SetCategory_def
  SetInventory_def SetStatus_def SetImages_def AddImage_def ClearImages_def

text \<open>
  Claim C3, as the code has it, whatever \<open>strings.ToUpper\<close> and
  \<open>strings.TrimSpace\<close> are. Let \<open>t\<close> be what \<open>TrimSpace\<close> makes of what
  \<open>ToUpper\<close> makes of the input. If \<open>t\<close> has 3 to 20 bytes, all of them among
  \<open>A-Z\<close>, \<open>0-9\<close>, hyphen and underscore, \<open>NewSKU\<close> returns the SKU \<open>t\<close>.
  Otherwise it fails with a domain error whose reason contains \<open>SKU\<close>, and the reason
  is one of three: one for the empty \<open>t\<close>, one for a length outside 3 to 20 (the same
  for too short and for too long), one for a character outside the set.
\<close>

theorem NewSKU_accepts_or_names_the_fault:
  fixes P :: "'f platform" and s :: string
  defines "t \<equiv> TrimSpace P (ToUpper P s)"
  shows
    "(3 \<le> length t \<and> length t \<le> 20 \<and> list_all sku_charset t \<longrightarrow>
        NewSKU P s = Inr (SKU t)) \<and>
     (\<not> (3 \<le> length t \<and> length t \<le> 20 \<and> list_all sku_charset t) \<longrightarrow>
        (\<exists>reason. NewSKU P s = Inl (DomainError reason) \<and> Contains reason ''SKU'' \<and>
           reason =
             (if t = [] then ''SKU cannot be empty''
              else if length t < 3 \<or> 20 < length t
                then ''SKU must be between 3 and 20 characters''
              else ''SKU can only contain uppercase letters, numbers, hyphens, and underscores'')))"
  unfolding t_def
  by (auto simp add: NewSKU_def validateSKU_def Let_def NewDomainError_def sku_regexp_match_def)

theorem NewSKU_accepts_or_names_the_fault_witness:
  "NewSKU exact_arith '' abc-123 '' = Inr (SKU ''ABC-123'') \<and>
   NewSKU exact_arith ''   '' = Inl (DomainError ''SKU cannot be empty'') \<and>
   NewSKU exact_arith ''ABC@123'' =
     Inl (DomainError
       ''SKU can only contain uppercase letters, numbers, hyphens, and underscores'')"
proof -
  have a: "TrimSpace exact_arith (ToUpper exact_arith '' abc-123 '') = ''ABC-123''"
    by (simp add: exact_arith_strings string_defs)
  have b: "TrimSpace exact_arith (ToUpper exact_arith ''   '') = []"
    by (simp add: exact_arith_strings string_defs)
  have c: "TrimSpace exact_arith (ToUpper exact_arith ''ABC@123'') = ''ABC@123''"
    by (simp add: exact_arith_strings string_defs)
  show ?thesis
    using NewSKU_accepts_or_names_the_fault [of exact_arith "'' abc-123 ''"]
      NewSKU_accepts_or_names_the_fault [of exact_arith "''   ''"]
      NewSKU_accepts_or_names_the_fault [of exact_arith "''ABC@123''"]
    unfolding a b c by (simp add: sku_charset_def)
qed

text \<open>
  Claim C3 as stated asks for distinct reasons for a SKU that is too short and for one
  that is too long. The two-character \<open>AB\<close> and the 26-character alphabet get the same
  reason.
\<close>

theorem NewSKU_short_and_long_share_reason:
  "NewSKU exact_arith ''AB'' =
     Inl (DomainError ''SKU must be between 3 and 20 characters'') \<and>
   NewSKU exact_arith ''ABCDEFGHIJKLMNOPQRSTUVWXYZ'' =
     Inl (DomainError ''SKU must be between 3 and 20 characters'')"
  by (simp add: NewSKU_def validateSKU_def NewDomainError_def exact_arith_strings string_defs)

text \<open>
  Claim C9, whatever \<open>strings.ToLower\<close> is. \<open>StatusFromString\<close> succeeds exactly on
  the strings that \<open>ToLower\<close> maps to one of \<open>active\<close>, \<open>inactive\<close>, \<open>draft\<close>,
  \<open>archived\<close>, that is on every case variant of the four names, and the status it
  returns prints as the lower-case form of the input; it is the status of that name. On
  every other string it fails with the domain error \<open>invalid status: \<close> followed by
  the input.
\<close>

theorem StatusFromString_String_roundtrip:
  "(ToLower P s \<in> set [''active'', ''inactive'', ''draft'', ''archived''] \<longrightarrow>
      (\<exists>st. StatusFromString P s = Inr st \<and> Status_String st = ToLower P s \<and>
         st = (if ToLower P s = ''active'' then StatusActive
               else if ToLower P s = ''inactive'' then StatusInactive
               else if ToLower P s = ''draft'' then StatusDraft else StatusArchived))) \<and>
   (ToLower P s \<notin> set [''active'', ''inactive'', ''draft'', ''archived''] \<longrightarrow>
      StatusFromString P s = Inl (DomainError (''invalid status: '' @ s)))"
  by (simp add: StatusFromString_def Let_def NewDomainError_def)

theorem StatusFromString_String_roundtrip_witness:
  "StatusFromString exact_arith ''ArChiVed'' = Inr StatusArchived \<and>
   Status_String StatusArchived = ToLower exact_arith ''ArChiVed'' \<and>
   StatusFromString exact_arith ''deleted'' = Inl (DomainError ''invalid status: deleted'')"
proof -
  have a: "ToLower exact_arith ''ArChiVed'' = ''archived''"
    by (simp add: exact_arith_strings string_defs)
  have b: "ToLower exact_arith ''deleted'' = ''deleted''"
    by (simp add: exact_arith_strings string_defs)
  from StatusFromString_String_roundtrip [of exact_arith "''ArChiVed''"]
  obtain st where st: "StatusFromString exact_arith ''ArChiVed'' = Inr st"
      "Status_String st = ''archived''"
    unfolding a by auto
  then have "st = StatusArchived" by (cases st) simp_all
  with st a StatusFromString_String_roundtrip [of exact_arith "''deleted''"] show ?thesis
    unfolding b by simp
qed

text \<open>
  Claim C6. \<open>NewItem\<close> with the empty name fails with the domain error
  \<open>item name cannot be empty\<close> and leaves the world as it was. With any other name,
  and whatever SKU, price and category it is given, it succeeds: the item has status
  \<open>Draft\<close>, inventory 0, no images, the arguments as its SKU, name, description, price
  and category, and as identifier the next one of the generator, which has advanced.
\<close>

theorem NewItem_rejects_empty_name_else_draft:
  "(name0 = [] \<longrightarrow>
      NewItem sku0 name0 desc p c w = (Inl (DomainError ''item name cannot be empty''), w)) \<and>
   (name0 \<noteq> [] \<longrightarrow>
      (\<exists>it w'. NewItem sku0 name0 desc p c w = (Inr it, w') \<and>
         status it = StatusDraft \<and> inventory_quantity (inventory it) = 0 \<and> images it = [] \<and>
         item_id it = ItemID (uuid_source w (uuids_drawn w)) \<and>
         uuids_drawn w' = Suc (uuids_drawn w) \<and>
         sku it = sku0 \<and> name it = name0 \<and> description it = desc \<and> price it = p \<and>
         category it = c))"
  by (simp add: NewItem_defs)

theorem NewItem_rejects_empty_name_else_draft_witness:
  "isl (fst (NewItem (SKU ''TEST-001'') [] ''A widget'' (Price 5000 ''USD'')
               (Category ''tools'' ''tools'') ticking_world)) \<and>
   \<not> isl (fst (new_widget ticking_world)) \<and>
   status (projr (fst (new_widget ticking_world))) = StatusDraft \<and>
   item_id (projr (fst (new_widget ticking_world))) = ItemID (uuid_of_nat 0)"
proof -
  have a: "isl (fst (NewItem (SKU ''TEST-001'') [] ''A widget'' (Price 5000 ''USD'')
               (Category ''tools'' ''tools'') ticking_world))"
    using NewItem_rejects_empty_name_else_draft [where ?name0.0 = "[]"
        and ?sku0.0 = "SKU ''TEST-001''" and desc = "''A widget''" and p = "Price 5000 ''USD''"
        and c = "Category ''tools'' ''tools''" and w = ticking_world]
    by simp
  have "''Widget'' \<noteq> []" by simp
  with NewItem_rejects_empty_name_else_draft [where ?name0.0 = "''Widget''"
        and ?sku0.0 = "SKU ''TEST-001''" and desc = "''A widget''" and p = "Price 5000 ''USD''"
        and c = "Category ''tools'' ''tools''" and w = ticking_world]
  obtain it w' where "new_widget ticking_world = (Inr it, w')" and "status it = StatusDraft"
    and "item_id it = ItemID (uuid_source ticking_world (uuids_drawn ticking_world))"
    unfolding new_widget_def by blast
  with a show ?thesis by (simp add: ticking_world_def)
qed

text \<open>
  Claim C7, as the code has it. \<open>NewItem\<close> rejects the empty name and accepts every
  other name, whatever its length, so an item it returns has a name of at least one
  character and no bound of 255 is enforced; \<open>SetName\<close> rejects nothing and stores the
  name it is given.
\<close>

theorem name_only_checked_for_empty:
  "(n = [] \<longrightarrow> NewItem sku0 n d p c w = (Inl (DomainError ''item name cannot be empty''), w)) \<and>
   (n \<noteq> [] \<longrightarrow>
      (\<exists>it w'. NewItem sku0 n d p c w = (Inr it, w') \<and> name it = n \<and> 1 \<le> length (name it))) \<and>
   name (fst (SetName n i w)) = n"
  by (auto simp add: NewItem_defs SetName_def Suc_le_eq)

theorem name_only_checked_for_empty_witness:
  "name (fst (SetName [] widget ticking_world)) = [] \<and>
   \<not> isl (fst (new_widget ticking_world)) \<and>
   name (projr (fst (new_widget ticking_world))) = ''Widget''"
proof -
  have a: "name (fst (SetName [] widget ticking_world)) = []"
    using name_only_checked_for_empty [where n = "[]" and i = widget and w = ticking_world]
    by simp
  have "''Widget'' \<noteq> []" by simp
  with name_only_checked_for_empty [where n = "''Widget''" and ?sku0.0 = "SKU ''TEST-001''"
        and d = "''A widget''" and p = "Price 5000 ''USD''" and c = "Category ''tools'' ''tools''"
        and w = ticking_world]
  obtain it w' where "new_widget ticking_world = (Inr it, w')" and "name it = ''Widget''"
    unfolding new_widget_def by blast
  with a show ?thesis by simp
qed

text \<open>
  Claim C7 as stated fails: \<open>NewItem\<close> returns an item for a name of 256 characters,
  and \<open>SetName\<close> with the empty string leaves an item whose name is empty.
\<close>

theorem name_bound_not_enforced:
  "\<not> isl (fst (NewItem (SKU ''TEST-001'') (replicate 256 (CHR ''a'')) ''A widget''
                  (Price 5000 ''USD'') (Category ''tools'' ''tools'') ticking_world)) \<and>
   length (name (projr (fst (NewItem (SKU ''TEST-001'') (replicate 256 (CHR ''a'')) ''A widget''
                  (Price 5000 ''USD'') (Category ''tools'' ''tools'') ticking_world)))) = 256 \<and>
   name (fst (SetName [] widget ticking_world)) = []"
  by (simp add: NewItem_defs SetName_def)

text \<open>
  Claim C8, as the code has it. Each of the nine mutators assigns its field, sets
  \<open>updatedAt\<close> to the reading of the clock it takes, so that \<open>updatedAt\<close> grows
  strictly whenever that reading is later than the value before, and changes no other
  field: putting the old values of the field and of \<open>updatedAt\<close> back gives the old
  item, with its identifier, SKU and \<open>createdAt\<close>.
\<close>

theorem mutators_stamp_and_frame:
  fixes i :: Item and w :: world
  defines "now \<equiv> clock w (clock_reads w)"
  shows
   "(let i' = fst (SetName n i w) in
       name i' = n \<and> updatedAt i' = now \<and> (updatedAt i < now \<longrightarrow> updatedAt i < updatedAt i') \<and>
       i'\<lparr>name := name i, updatedAt := updatedAt i\<rparr> = i) \<and>
    (let i' = fst (SetDescription d i w) in
       description i' = d \<and> updatedAt i' = now \<and>
       (updatedAt i < now \<longrightarrow> updatedAt i < updatedAt i') \<and>
       i'\<lparr>description := description i, updatedAt := updatedAt i\<rparr> = i) \<and>
    (let i' = fst (SetPrice p i w) in
       price i' = p \<and> updatedAt i' = now \<and> (updatedAt i < now \<longrightarrow> updatedAt i < updatedAt i') \<and>
       i'\<lparr>price := price i, updatedAt := updatedAt i\<rparr> = i) \<and>
    (let i' = fst (SetCategory c i w) in
       category i' = c \<and> updatedAt i' = now \<and>
       (updatedAt i < now \<longrightarrow> updatedAt i < updatedAt i') \<and>
       i'\<lparr>category := category i, updatedAt := updatedAt i\<rparr> = i) \<and>
    (let i' = fst (SetInventory q i w) in
       inventory i' = q \<and> updatedAt i' = now \<and>
       (updatedAt i < now \<longrightarrow> updatedAt i < updatedAt i') \<and>
       i'\<lparr>inventory := inventory i, updatedAt := updatedAt i\<rparr> = i) \<and>
    (let i' = fst (SetStatus st i w) in
       status i' = st \<and> updatedAt i' = now \<and> (updatedAt i < now \<longrightarrow> updatedAt i < updatedAt i') \<and>
       i'\<lparr>status := status i, updatedAt := updatedAt i\<rparr> = i) \<and>
    (let i' = fst (SetImages imgs i w) in
       images i' = imgs \<and> updatedAt i' = now \<and>
       (updatedAt i < now \<longrightarrow> updatedAt i < updatedAt i') \<and>
       i'\<lparr>images := images i, updatedAt := updatedAt i\<rparr> = i) \<and>
    (let i' = fst (AddImage img i w) in
       images i' = images i @ [img] \<and> updatedAt i' = now \<and>
       (updatedAt i < now \<longrightarrow> updatedAt i < updatedAt i') \<and>
       i'\<lparr>images := images i, updatedAt := updatedAt i\<rparr> = i) \<and>
    (let i' = fst (ClearImages i w) in
       images i' = [] \<and> updatedAt i' = now \<and> (updatedAt i < now \<longrightarrow> updatedAt i < updatedAt i') \<and>
       i'\<lparr>images := images i, updatedAt := updatedAt i\<rparr> = i)"
  unfolding now_def by (simp add: setter_defs time_Now_def Let_def)

theorem mutators_stamp_and_frame_witness:
  "updatedAt widget < clock ticking_world (clock_reads ticking_world) \<and>
   updatedAt widget < updatedAt (fst (SetPrice (Price 4500 ''USD'') widget ticking_world)) \<and>
   updatedAt widget < updatedAt (fst (SetInventory (Inventory 3) widget ticking_world)) \<and>
   createdAt (fst (SetStatus StatusInactive widget ticking_world)) = createdAt widget"
proof -
  have h: "updatedAt widget < clock ticking_world (clock_reads ticking_world)"
    by (simp add: widget_def ticking_world_def)
  have c: "createdAt (fst (SetStatus StatusInactive widget ticking_world)) = createdAt widget"
    by (simp add: SetStatus_def time_Now_def)
  show ?thesis
    using h c mutators_stamp_and_frame [where i = widget and w = ticking_world
        and p = "Price 4500 ''USD''" and q = "Inventory 3"]
    by (simp add: Let_def)
qed

text \<open>
  Claim C8 as stated fails where the clock gives the same reading twice: an item made
  by \<open>NewItem\<close> and renamed at once has the \<open>updatedAt\<close> it had before.
\<close>

theorem updatedAt_not_increased_on_frozen_clock:
  "\<not> isl (fst (new_widget frozen_world)) \<and>
   \<not> updatedAt (projr (fst (new_widget frozen_world)))
       < updatedAt (fst (SetName ''Gadget'' (projr (fst (new_widget frozen_world)))
                           (snd (new_widget frozen_world))))"
  by (simp add: new_widget_def NewItem_defs frozen_world_def SetName_def)

section \<open>Properties of the use cases\<close>

lemma uuid_widget: "canonical_uuid ''550e8400-e29b-41d4-a716-446655440000''"
  by code_simp

lemma wrap64_id: "- (2 ^ 63) \<le> x \<Longrightarrow> x < 2 ^ 63 \<Longrightarrow> wrap64 x = x"
  by (simp add: wrap64_def)

lemma wrap64_add_left: "wrap64 (wrap64 a + b) = wrap64 (a + b)"
  by (simp add: wrap64_def mod_simps algebra_simps)

lemma ceiling_pages:
  fixes n ps :: int
  assumes "0 < ps"
  shows "(n + ps - 1) div ps = \<lceil>real_of_int n / real_of_int ps\<rceil>"
proof -
  have c: "\<lceil>real_of_int n / real_of_int ps\<rceil> = - (- n div ps)"
    by (rule ceiling_divide_eq_div)
  have n: "n = ps * (n div ps) + n mod ps" by simp
  have r: "0 \<le> n mod ps" "n mod ps < ps" using assms by simp_all
  show ?thesis
  proof (cases "n mod ps = 0")
    case True
    then have "n + ps - 1 = ps * (n div ps) + (ps - 1)" using n by simp
    then have "(n + ps - 1) div ps = n div ps"
      using assms by (intro int_div_pos_eq [where r = "ps - 1"]) auto
    moreover have "- n div ps = - (n div ps)"
      using True assms by (simp add: zdiv_zminus1_eq_if)
    ultimately show ?thesis using c by simp
  next
    case False
    then have "n + ps - 1 = ps * (n div ps + 1) + (n mod ps - 1)"
      using n by (simp add: algebra_simps)
    then have "(n + ps - 1) div ps = n div ps + 1"
      using assms r False by (intro int_div_pos_eq [where r = "n mod ps - 1"]) auto
    moreover have "- n div ps = - (n div ps) - 1"
      using False assms by (simp add: zdiv_zminus1_eq_if)
    ultimately show ?thesis using c by simp
  qed
qed

lemma quo_nonneg: "0 \<le> a \<Longrightarrow> a < 2 ^ 63 \<Longrightarrow> 0 < b \<Longrightarrow> quo a b = a div b"
proof -
  assume a: "0 \<le> a" "a < 2 ^ 63" and b: "0 < b"
  have s: "sgn a * sgn b * (\<bar>a\<bar> div \<bar>b\<bar>) = a div b"
    using a b by (cases "a = 0") (simp_all add: sgn_if)
  have "0 \<le> a div b" using a b by (simp add: pos_imp_zdiv_nonneg_iff)
  moreover have "a div b \<le> a div 1" using a b by (intro zdiv_mono2) auto
  ultimately show ?thesis using a unfolding quo_def s by (intro wrap64_id) auto
qed

lemma SearchItems_choice_cases:
  "SearchItems_choice P req =
     (if sr_Query req \<noteq> [] then
        Inr (Query_Search (sr_Query req) (sr_PageSize req)
               (wrap64 (wrap64 (sr_Page req - 1) * sr_PageSize req)))
      else if sr_Category req \<noteq> [] then
        (case NewCategory P (sr_Category req) of
           Inl e \<Rightarrow> Inl (Wrap ''invalid category'' e)
         | Inr c \<Rightarrow> Inr (Query_FindByCategory c (sr_PageSize req)
               (wrap64 (wrap64 (sr_Page req - 1) * sr_PageSize req))))
      else if sr_Status req \<noteq> [] then
        (case StatusFromString P (sr_Status req) of
           Inl e \<Rightarrow> Inl (Wrap ''invalid status'' e)
         | Inr st \<Rightarrow> Inr (Query_FindByStatus st (sr_PageSize req)
               (wrap64 (wrap64 (sr_Page req - 1) * sr_PageSize req))))
      else Inr (Query_FindAvailableItems (sr_PageSize req)
               (wrap64 (wrap64 (sr_Page req - 1) * sr_PageSize req))))"
  by (simp add: SearchItems_choice_def Let_def)

lemma SearchItems_made:
  "fst (snd (SearchItems P R req w s)) =
     (case SearchItems_choice P req of Inl e \<Rightarrow> [] | Inr q \<Rightarrow> [q])"
  by (simp add: SearchItems_def Let_def split: sum.splits prod.splits)

lemma SearchItems_state:
  "snd (snd (SearchItems P R req w s)) =
     (case SearchItems_choice P req of Inl e \<Rightarrow> (w, s) | Inr q \<Rightarrow> snd (dispatch R q w s))"
  by (simp add: SearchItems_def Let_def split: sum.splits prod.splits)

lemma SearchItems_early_error:
  "SearchItems_choice P req = Inl e \<Longrightarrow> fst (SearchItems P R req w s) = Inl e"
  by (simp add: SearchItems_def)

lemma SearchItems_pages:
  assumes "fst (SearchItems P R req w s) = Inr resp" and "0 < sr_PageSize req"
    and "int (length (lr_Items resp)) + sr_PageSize req \<le> 2 ^ 63"
  shows "lr_TotalPages resp =
           \<lceil>real (length (lr_Items resp)) / real_of_int (sr_PageSize req)\<rceil>"
proof -
  let ?n = "int (length (lr_Items resp))" and ?ps = "sr_PageSize req"
  from assms(1,2) have tp: "lr_TotalPages resp = quo (wrap64 (wrap64 (?n + ?ps) - 1)) ?ps"
    by (auto simp add: SearchItems_def Let_def split: sum.splits prod.splits if_splits)
  have "wrap64 (wrap64 (?n + ?ps) - 1) = wrap64 (?n + ?ps - 1)"
    using wrap64_add_left [of "?n + ?ps" "- 1"] by simp
  also have "\<dots> = ?n + ?ps - 1"
    using assms(2,3) by (intro wrap64_id) auto
  finally have "lr_TotalPages resp = (?n + ?ps - 1) div ?ps"
    using tp assms(2,3) by (simp add: quo_nonneg)
  then show ?thesis using ceiling_pages [OF assms(2), of ?n] by simp
qed

text \<open>
  Claim C5, as the code has it, whatever the functions of package \<open>strings\<close> are.
  \<open>SearchItems\<close> makes at most one query of the repository. With a query string it is
  \<open>Search\<close>. Else, with a category, it is \<open>FindByCategory\<close> for the category that
  \<open>NewCategory\<close> makes of it, unless \<open>NewCategory\<close> fails (the category is empty
  once trimmed): then the call fails with \<open>invalid category\<close> and no query is made.
  Else, with a status, it is \<open>FindByStatus\<close> for the status that
  \<open>StatusFromString\<close> reads, unless that fails (the string is no status name): then
  the call fails with \<open>invalid status\<close> and no query is made. Else it is
  \<open>FindAvailableItems\<close>. The
  limit is the page size and the offset is \<open>(Page - 1) * PageSize\<close>. The world and the
  store are left as the one query leaves them. When the call succeeds, the page size is
  positive and \<open>n + PageSize\<close> does not exceed \<open>2^63\<close>, where \<open>n\<close> is the number of
  items of the page, \<open>TotalPages\<close> is \<open>n / PageSize\<close> rounded up.
\<close>

theorem SearchItems_one_query_by_priority:
  fixes req :: SearchRequest
  defines "limit \<equiv> sr_PageSize req"
    and "offset \<equiv> wrap64 (wrap64 (sr_Page req - 1) * sr_PageSize req)"
  shows
   "length (fst (snd (SearchItems P R req w s))) \<le> 1 \<and>
    (sr_Query req \<noteq> [] \<longrightarrow>
       fst (snd (SearchItems P R req w s)) = [Query_Search (sr_Query req) limit offset]) \<and>
    (sr_Query req = [] \<and> sr_Category req \<noteq> [] \<longrightarrow>
       (case NewCategory P (sr_Category req) of
          Inr c \<Rightarrow> fst (snd (SearchItems P R req w s)) = [Query_FindByCategory c limit offset]
        | Inl e \<Rightarrow> fst (snd (SearchItems P R req w s)) = [] \<and>
                  fst (SearchItems P R req w s) = Inl (Wrap ''invalid category'' e))) \<and>
    (sr_Query req = [] \<and> sr_Category req = [] \<and> sr_Status req \<noteq> [] \<longrightarrow>
       (case StatusFromString P (sr_Status req) of
          Inr st \<Rightarrow> fst (snd (SearchItems P R req w s)) = [Query_FindByStatus st limit offset]
        | Inl e \<Rightarrow> fst (snd (SearchItems P R req w s)) = [] \<and>
                  fst (SearchItems P R req w s) = Inl (Wrap ''invalid status'' e))) \<and>
    (sr_Query req = [] \<and> sr_Category req = [] \<and> sr_Status req = [] \<longrightarrow>
       fst (snd (SearchItems P R req w s)) = [Query_FindAvailableItems limit offset]) \<and>
    snd (snd (SearchItems P R req w s)) =
      (case fst (snd (SearchItems P R req w s)) of
         [] \<Rightarrow> (w, s)
       | q # _ \<Rightarrow> snd (dispatch R q w s)) \<and>
    (\<forall>resp. fst (SearchItems P R req w s) = Inr resp \<and> 0 < sr_PageSize req \<and>
            int (length (lr_Items resp)) + sr_PageSize req \<le> 2 ^ 63 \<longrightarrow>
       lr_TotalPages resp = \<lceil>real (length (lr_Items resp)) / real_of_int (sr_PageSize req)\<rceil>)"
proof -
  have made: "fst (snd (SearchItems P R req w s)) =
     (case SearchItems_choice P req of Inl e \<Rightarrow> [] | Inr q \<Rightarrow> [q])"
    by (rule SearchItems_made)
  have a: "length (fst (snd (SearchItems P R req w s))) \<le> 1"
    unfolding made by (simp split: sum.splits)
  have b: "sr_Query req \<noteq> [] \<longrightarrow>
       fst (snd (SearchItems P R req w s)) = [Query_Search (sr_Query req) limit offset]"
    unfolding made limit_def offset_def by (simp add: SearchItems_choice_cases)
  have c: "sr_Query req = [] \<and> sr_Category req \<noteq> [] \<longrightarrow>
       (case NewCategory P (sr_Category req) of
          Inr c \<Rightarrow> fst (snd (SearchItems P R req w s)) = [Query_FindByCategory c limit offset]
        | Inl e \<Rightarrow> fst (snd (SearchItems P R req w s)) = [] \<and>
                  fst (SearchItems P R req w s) = Inl (Wrap ''invalid category'' e))"
    unfolding made limit_def offset_def
    by (simp add: SearchItems_choice_cases SearchItems_early_error split: sum.splits)
  have d: "sr_Query req = [] \<and> sr_Category req = [] \<and> sr_Status req \<noteq> [] \<longrightarrow>
       (case StatusFromString P (sr_Status req) of
          Inr st \<Rightarrow> fst (snd (SearchItems P R req w s)) = [Query_FindByStatus st limit offset]
        | Inl e \<Rightarrow> fst (snd (SearchItems P R req w s)) = [] \<and>
                  fst (SearchItems P R req w s) = Inl (Wrap ''invalid status'' e))"
    unfolding made limit_def offset_def
    by (simp add: SearchItems_choice_cases SearchItems_early_error split: sum.splits)
  have e: "sr_Query req = [] \<and> sr_Category req = [] \<and> sr_Status req = [] \<longrightarrow>
       fst (snd (SearchItems P R req w s)) = [Query_FindAvailableItems limit offset]"
    unfolding made limit_def offset_def by (simp add: SearchItems_choice_cases)
  have f: "snd (snd (SearchItems P R req w s)) =
      (case fst (snd (SearchItems P R req w s)) of
         [] \<Rightarrow> (w, s)
       | q # _ \<Rightarrow> snd (dispatch R q w s))"
    unfolding made SearchItems_state by (simp split: sum.splits)
  have g: "\<forall>resp. fst (SearchItems P R req w s) = Inr resp \<and> 0 < sr_PageSize req \<and>
            int (length (lr_Items resp)) + sr_PageSize req \<le> 2 ^ 63 \<longrightarrow>
       lr_TotalPages resp = \<lceil>real (length (lr_Items resp)) / real_of_int (sr_PageSize req)\<rceil>"
  proof (intro allI impI)
    fix resp
    assume h: "fst (SearchItems P R req w s) = Inr resp \<and> 0 < sr_PageSize req \<and>
            int (length (lr_Items resp)) + sr_PageSize req \<le> 2 ^ 63"
    then show "lr_TotalPages resp =
        \<lceil>real (length (lr_Items resp)) / real_of_int (sr_PageSize req)\<rceil>"
      by (intro SearchItems_pages [of P R req w s]) simp_all
  qed
  from a b c d e f g show ?thesis by (intro conjI)
qed

theorem SearchItems_one_query_by_priority_witness:
  "fst (snd (SearchItems exact_arith (fixed_repository [widget, widget, widget])
               \<lparr>sr_Query = ''wid'', sr_Category = [], sr_Status = [], sr_Page = 2, sr_PageSize = 2\<rparr>
               ticking_world ())) = [Query_Search ''wid'' 2 2] \<and>
   \<not> isl (fst (SearchItems exact_arith (fixed_repository [widget, widget, widget])
               \<lparr>sr_Query = ''wid'', sr_Category = [], sr_Status = [], sr_Page = 2, sr_PageSize = 2\<rparr>
               ticking_world ())) \<and>
   lr_TotalPages (projr (fst (SearchItems exact_arith (fixed_repository [widget, widget, widget])
               \<lparr>sr_Query = ''wid'', sr_Category = [], sr_Status = [], sr_Page = 2, sr_PageSize = 2\<rparr>
               ticking_world ()))) = 2"
proof -
  let ?req = "\<lparr>sr_Query = ''wid'', sr_Category = [], sr_Status = [], sr_Page = 2, sr_PageSize = 2\<rparr>"
  let ?out = "SearchItems exact_arith (fixed_repository [widget, widget, widget]) ?req
                ticking_world ()"
  note t = SearchItems_one_query_by_priority [of exact_arith
      "fixed_repository [widget, widget, widget]" ?req ticking_world "()"]
  have off: "wrap64 (wrap64 (sr_Page ?req - 1) * sr_PageSize ?req) = 2"
    by (simp add: wrap64_def)
  have q: "fst (snd ?out) = [Query_Search ''wid'' 2 2]"
    using t off by simp
  obtain resp where r: "fst ?out = Inr resp" and n: "length (lr_Items resp) = 3"
    by (simp add: SearchItems_def SearchItems_choice_def fixed_repository_def Let_def)
  have "lr_TotalPages resp = \<lceil>real (length (lr_Items resp)) / real_of_int (sr_PageSize ?req)\<rceil>"
    using t r n by simp
  then have "lr_TotalPages resp = 2" using n by simp
  with q r show ?thesis by simp
qed

text \<open>
  Claim C5 as stated fails twice. A request whose category is two spaces, with no query
  string, makes no query of the repository at all; and with the page size 0 the division
  panics, so there is no \<open>TotalPages\<close>.
\<close>

theorem SearchItems_without_query_or_pages:
  "fst (snd (SearchItems exact_arith (fixed_repository [widget])
               \<lparr>sr_Query = [], sr_Category = ''  '', sr_Status = [], sr_Page = 1, sr_PageSize = 10\<rparr>
               ticking_world ())) = [] \<and>
   fst (SearchItems exact_arith (fixed_repository [widget])
          \<lparr>sr_Query = ''wid'', sr_Category = [], sr_Status = [], sr_Page = 1, sr_PageSize = 0\<rparr>
          ticking_world ()) = Inl (Panic ''integer divide by zero'')"
  by (simp add: SearchItems_def SearchItems_choice_def fixed_repository_def Let_def
      NewCategory_def exact_arith_strings ascii_TrimSpace_def isSpace_def)

text \<open>
  Claim C10, for any repository behind the use case. When the identifier has 36
  characters and parses as a UUID and the repository finds an item for it,
  \<open>GetItemByID\<close> succeeds: it returns the response made of that item, with the price
  replaced by 0 if the status of the item is \<open>Draft\<close>, whatever the price of the item,
  and with the amount of the item's price otherwise. Conversely, when \<open>GetItemByID\<close>
  succeeds, the identifier is such and the repository has found an item, and the price of
  the response is 0 for a \<open>Draft\<close> item and the amount of the item's price otherwise.
\<close>

theorem GetItemByID_hides_draft_price:
  "(length id0 = 36 \<and> uuid_Parse P id0 \<and> find_by_id (ItemID id0) w s = (Inr it, w1, s1) \<longrightarrow>
      GetItemByID P find_by_id id0 w s =
        (Inr (if status it = StatusDraft
              then (mapItemToResponse P it)\<lparr>resp_Price := f_lit P 0\<rparr>
              else mapItemToResponse P it), w1, s1) \<and>
      (status it = StatusDraft \<longrightarrow>
         resp_Price (projr (fst (GetItemByID P find_by_id id0 w s))) = f_lit P 0) \<and>
      (status it \<noteq> StatusDraft \<longrightarrow>
         resp_Price (projr (fst (GetItemByID P find_by_id id0 w s))) =
           Price_Amount P (price it))) \<and>
   (\<forall>resp w' s'. GetItemByID P find_by_id id0 w s = (Inr resp, w', s') \<longrightarrow>
      length id0 = 36 \<and> uuid_Parse P id0 \<and>
      (\<exists>it'. find_by_id (ItemID id0) w s = (Inr it', w', s') \<and>
         (status it' = StatusDraft \<longrightarrow> resp_Price resp = f_lit P 0) \<and>
         (status it' \<noteq> StatusDraft \<longrightarrow> resp_Price resp = Price_Amount P (price it'))))"
proof (intro conjI impI allI)
  assume h: "length id0 = 36 \<and> uuid_Parse P id0 \<and>
             find_by_id (ItemID id0) w s = (Inr it, w1, s1)"
  then have ne: "id0 \<noteq> []" by auto
  show g: "GetItemByID P find_by_id id0 w s =
        (Inr (if status it = StatusDraft
              then (mapItemToResponse P it)\<lparr>resp_Price := f_lit P 0\<rparr>
              else mapItemToResponse P it), w1, s1)"
    using h ne by (simp add: GetItemByID_def NewItemIDFromString_def Let_def)
  show "resp_Price (projr (fst (GetItemByID P find_by_id id0 w s))) = f_lit P 0"
    if "status it = StatusDraft"
    using that unfolding g by simp
  show "resp_Price (projr (fst (GetItemByID P find_by_id id0 w s))) = Price_Amount P (price it)"
    if "status it \<noteq> StatusDraft"
    using that unfolding g by (simp add: mapItemToResponse_def)
next
  fix resp w' s'
  assume "GetItemByID P find_by_id id0 w s = (Inr resp, w', s')"
  then show "length id0 = 36" and "uuid_Parse P id0"
    and "\<exists>it'. find_by_id (ItemID id0) w s = (Inr it', w', s') \<and>
         (status it' = StatusDraft \<longrightarrow> resp_Price resp = f_lit P 0) \<and>
         (status it' \<noteq> StatusDraft \<longrightarrow> resp_Price resp = Price_Amount P (price it'))"
    by (auto simp add: GetItemByID_def NewItemIDFromString_def mapItemToResponse_def Let_def
        split: if_splits sum.splits prod.splits)
qed

theorem GetItemByID_hides_draft_price_witness:
  "\<not> isl (fst (GetItemByID exact_arith (found widget) ''550e8400-e29b-41d4-a716-446655440000''
                  ticking_world ())) \<and>
   resp_Price (projr (fst (GetItemByID exact_arith (found widget)
                  ''550e8400-e29b-41d4-a716-446655440000'' ticking_world ()))) = 50 \<and>
   \<not> isl (fst (GetItemByID exact_arith (found (widget\<lparr>status := StatusDraft\<rparr>))
                  ''550e8400-e29b-41d4-a716-446655440000'' ticking_world ())) \<and>
   resp_Price (projr (fst (GetItemByID exact_arith (found (widget\<lparr>status := StatusDraft\<rparr>))
                  ''550e8400-e29b-41d4-a716-446655440000'' ticking_world ()))) = 0"
proof -
  let ?id = "''550e8400-e29b-41d4-a716-446655440000''"
  let ?draft = "widget\<lparr>status := StatusDraft\<rparr>"
  have u: "length ?id = 36" "uuid_Parse exact_arith ?id"
    by (simp_all add: exact_arith_def uuid_widget)
  have p: "Price_Amount exact_arith (price widget) = 50" "f_lit exact_arith 0 = 0"
    by (simp_all add: Price_Amount_def exact_arith_def widget_def)
  have st: "status widget \<noteq> StatusDraft" "status ?draft = StatusDraft"
    by (simp_all add: widget_def)
  have a: "found widget (ItemID ?id) ticking_world () = (Inr widget, ticking_world, ())"
    by (simp add: found_def)
  have b: "found ?draft (ItemID ?id) ticking_world () = (Inr ?draft, ticking_world, ())"
    by (simp add: found_def)
  from u a have ha: "length ?id = 36 \<and> uuid_Parse exact_arith ?id \<and>
      found widget (ItemID ?id) ticking_world () = (Inr widget, ticking_world, ())"
    by (intro conjI)
  from u b have hb: "length ?id = 36 \<and> uuid_Parse exact_arith ?id \<and>
      found ?draft (ItemID ?id) ticking_world () = (Inr ?draft, ticking_world, ())"
    by (intro conjI)
  note ta = mp [OF conjunct1 [OF GetItemByID_hides_draft_price [where P = exact_arith
      and ?id0.0 = ?id and find_by_id = "found widget" and w = ticking_world and s = "()"
      and it = widget and ?w1.0 = ticking_world and ?s1.0 = "()"]] ha]
  note tb = mp [OF conjunct1 [OF GetItemByID_hides_draft_price [where P = exact_arith
      and ?id0.0 = ?id and find_by_id = "found ?draft" and w = ticking_world and s = "()"
      and it = ?draft and ?w1.0 = ticking_world and ?s1.0 = "()"]] hb]
  have 1: "\<not> isl (fst (GetItemByID exact_arith (found widget) ?id ticking_world ()))"
    unfolding conjunct1 [OF ta] by simp
  have 2: "resp_Price (projr (fst (GetItemByID exact_arith (found widget) ?id ticking_world ())))
             = 50"
    using mp [OF conjunct2 [OF conjunct2 [OF ta]] st(1)] p(1) by (rule trans)
  have 3: "\<not> isl (fst (GetItemByID exact_arith (found ?draft) ?id ticking_world ()))"
    unfolding conjunct1 [OF tb] by simp
  have 4: "resp_Price (projr (fst (GetItemByID exact_arith (found ?draft) ?id ticking_world ())))
             = 0"
    using mp [OF conjunct1 [OF conjunct2 [OF tb]] st(2)] p(2) by (rule trans)
  from 1 2 3 4 show ?thesis by (intro conjI)
qed

section \<open>Properties of the repository\<close>

lemmas value_object_defs = NewSKU_def validateSKU_def sku_regexp_match_def NewPrice_def
  NewCategory_def ReplaceAll_char_def NewInventory_def StatusFromString_def NewImage_def
  Attributes_Set_def NewAttributes_def NewItemIDFromString_def

lemma uuid_0: "uuid_of_nat 0 = ''00000000-0000-4000-8000-000000000000''"
  by (simp add: uuid_of_nat_def digit_char_def)




lemma saved_widget_eq:
  "saved_widget = (None, widget, ticking_world,
     [\<lparr> row_ID = ''550e8400-e29b-41d4-a716-446655440000'', row_SKU = ''TEST-001'',
         row_Name = ''Widget'', row_Description = ''A widget'', row_PriceAmount = 5000,
         row_PriceCurrency = ''USD'', row_CategoryName = ''tools'', row_CategorySlug = ''tools'',
         row_InventoryQuantity = 10,
         row_Images = [imageJSON ''http://img/1.png'' ''front'' True],
         row_Attributes = [(''color'', ''red'')], row_Status = ''active'',
         row_CreatedAt = 900, row_UpdatedAt = 1000 \<rparr>])"
  by (simp add: saved_widget_def Save_def validateItemBusinessRules_def
      applyBusinessCorrections_def NewPostgresItemRepository_def exact_arith_def trunc_def
      widget_def Price_Amount_def items_INSERT_def uuid_widget imagesToJSON_def
      Attributes_All_def string_defs Let_def)

lemma NewItem_Inr:
  assumes "NewItem sku0 n d p c w = (Inr it, w')"
  shows "status it = StatusDraft \<and> inventory it = Inventory 0 \<and> images it = [] \<and>
         attributes it = Attributes [] \<and> item_id it = ItemID (uuid_source w (uuids_drawn w))"
  using assms by (auto simp add: NewItem_defs NewAttributes_def split: if_splits)

lemma rowToItem_NewItem:
  assumes "rowToItem P row w = (Inr it, w')"
  shows "\<exists>sku0 p c. NewItem sku0 (row_Name row) (row_Description row) p c w = (Inr it, w')"
  using assms unfolding rowToItem_def
  by (simp split: sum.splits prod.splits) blast

text \<open>
  Whatever the row holds, the item that \<open>rowToItem\<close> returns has the defaults of
  \<open>NewItem\<close>: status \<open>Draft\<close>, inventory 0, no images, no attributes, and the next
  identifier of the generator.
\<close>

lemma rowToItem_forgets:
  assumes "rowToItem P row w = (Inr it, w')"
  shows "status it = StatusDraft \<and> inventory it = Inventory 0 \<and> images it = [] \<and>
         attributes it = Attributes [] \<and> item_id it = ItemID (uuid_source w (uuids_drawn w))"
  using rowToItem_NewItem [OF assms] NewItem_Inr by blast

lemma FindByID_forgets:
  assumes "FindByID P id0 w tbl = (Inr it, w', tbl')"
  shows "status it = StatusDraft \<and> inventory it = Inventory 0 \<and> images it = [] \<and>
         attributes it = Attributes [] \<and> item_id it = ItemID (uuid_source w (uuids_drawn w))"
proof (cases "items_SELECT_by_id (id_value id0) tbl")
  case (Inl err)
  with assms show ?thesis by (simp add: FindByID_def split: if_splits)
next
  case (Inr row)
  with assms have "rowToItem P row w = (Inr it, w')"
    by (simp add: FindByID_def split: prod.splits)
  then show ?thesis by (rule rowToItem_forgets)
qed

lemma FindBySKU_forgets:
  assumes "FindBySKU P sku0 w tbl = (Inr it, w', tbl')"
  shows "status it = StatusDraft \<and> inventory it = Inventory 0 \<and> images it = [] \<and>
         attributes it = Attributes [] \<and> item_id it = ItemID (uuid_source w (uuids_drawn w))"
proof (cases "items_SELECT_by_sku (sku_value sku0) tbl")
  case (Inl err)
  with assms show ?thesis by (simp add: FindBySKU_def split: if_splits)
next
  case (Inr row)
  with assms have "rowToItem P row w = (Inr it, w')"
    by (simp add: FindBySKU_def split: prod.splits)
  then show ?thesis by (rule rowToItem_forgets)
qed

text \<open>
  Claim C1 on the code. \<open>widget\<close> is saved into the empty table without an error; it
  has the identifier \<open>550e8400-...\<close>, inventory 10, one image, one attribute and the
  status \<open>Active\<close>. Loaded again by \<open>FindByID\<close> or by \<open>FindBySKU\<close>, the item has a
  new identifier, inventory 0, no image, no attribute and the status \<open>Draft\<close>.
\<close>

theorem widget_saved_and_loaded_differs:
  "fst saved_widget = None \<and>
   fst (FindByID exact_arith (item_id widget) (fst (snd (snd saved_widget)))
          (snd (snd (snd saved_widget)))) =
     Inr \<lparr> item_id = ItemID ''00000000-0000-4000-8000-000000000000'', sku = SKU ''TEST-001'',
           name = ''Widget'', description = ''A widget'', price = Price 5000 ''USD'',
           category = Category ''tools'' ''tools'', inventory = Inventory 0, images = [],
           attributes = Attributes [], status = StatusDraft,
           createdAt = 2000, updatedAt = 2001 \<rparr> \<and>
   fst (FindBySKU exact_arith (sku widget) (fst (snd (snd saved_widget)))
          (snd (snd (snd saved_widget)))) =
     Inr \<lparr> item_id = ItemID ''00000000-0000-4000-8000-000000000000'', sku = SKU ''TEST-001'',
           name = ''Widget'', description = ''A widget'', price = Price 5000 ''USD'',
           category = Category ''tools'' ''tools'', inventory = Inventory 0, images = [],
           attributes = Attributes [], status = StatusDraft,
           createdAt = 2000, updatedAt = 2001 \<rparr> \<and>
   item_id widget = ItemID ''550e8400-e29b-41d4-a716-446655440000'' \<and>
   inventory widget = Inventory 10 \<and>
   images widget = [Image ''http://img/1.png'' ''front'' True] \<and>
   attributes widget = Attributes [(''color'', ''red'')] \<and>
   status widget = StatusActive"
proof -
  have w: "item_id widget = ItemID ''550e8400-e29b-41d4-a716-446655440000''"
      "sku widget = SKU ''TEST-001''"
      "inventory widget = Inventory 10"
      "images widget = [Image ''http://img/1.png'' ''front'' True]"
      "attributes widget = Attributes [(''color'', ''red'')]"
      "status widget = StatusActive"
    by (simp_all add: widget_def)
  have r: "rowToItem exact_arith
      \<lparr> row_ID = ''550e8400-e29b-41d4-a716-446655440000'', row_SKU = ''TEST-001'',
         row_Name = ''Widget'', row_Description = ''A widget'', row_PriceAmount = 5000,
         row_PriceCurrency = ''USD'', row_CategoryName = ''tools'', row_CategorySlug = ''tools'',
         row_InventoryQuantity = 10,
         row_Images = [imageJSON ''http://img/1.png'' ''front'' True],
         row_Attributes = [(''color'', ''red'')], row_Status = ''active'',
         row_CreatedAt = 900, row_UpdatedAt = 1000 \<rparr> ticking_world =
     (Inr \<lparr> item_id = ItemID ''00000000-0000-4000-8000-000000000000'', sku = SKU ''TEST-001'',
           name = ''Widget'', description = ''A widget'', price = Price 5000 ''USD'',
           category = Category ''tools'' ''tools'', inventory = Inventory 0, images = [],
           attributes = Attributes [], status = StatusDraft,
           createdAt = 2000, updatedAt = 2001 \<rparr>,
      ticking_world\<lparr>clock_reads := 2, uuids_drawn := 1\<rparr>)"
    by (simp add: rowToItem_def value_object_defs NewItem_defs exact_arith_def trunc_def
        uuid_widget ticking_world_def uuid_0 string_defs)
  show ?thesis
    unfolding saved_widget_eq w
    by (simp add: FindByID_def FindBySKU_def items_SELECT_by_id_def items_SELECT_by_sku_def
        uuid_widget r string_defs)
qed


lemma applyBusinessCorrections_sku:
  "sku (fst (applyBusinessCorrections P r itm w)) = sku itm"
  by (simp add: applyBusinessCorrections_def setter_defs time_Now_def Let_def split: prod.split)

lemma validated_sku_nonempty:
  "validateItemBusinessRules P r itm = None \<Longrightarrow> sku_value (sku itm) \<noteq> []"
  by (auto simp add: validateItemBusinessRules_def split: if_splits)

lemma items_INSERT_rows:
  "items_INSERT row tbl = Inr tbl' \<Longrightarrow>
     tbl' = tbl @ [row\<lparr>row_ID := ascii_ToLower (row_ID row)\<rparr>]"
  by (simp add: items_INSERT_def split: if_splits)

text \<open>\<open>Save\<close> stores no row with an empty SKU: it asks for a hyphen in the SKU.\<close>

lemma Save_keeps_SKUs_nonempty:
  assumes "Save P r itm w tbl = (res, itm', w', tbl')"
    and "\<not> list_ex (\<lambda>r. row_SKU r = []) tbl"
  shows "\<not> list_ex (\<lambda>r. row_SKU r = []) tbl'"
proof (cases "validateItemBusinessRules P r itm")
  case (Some err)
  with assms show ?thesis by (simp add: Save_def)
next
  case None
  obtain adjusted w1 where a: "applyBusinessCorrections P r itm w = (adjusted, w1)"
    by (cases "applyBusinessCorrections P r itm w")
  then have s1: "sku adjusted = sku itm"
    using applyBusinessCorrections_sku [of P r itm w] by simp
  have ne: "sku_value (sku itm) \<noteq> []" using None by (rule validated_sku_nonempty)
  from assms(1) None a s1 ne assms(2) show ?thesis
    by (auto simp add: Save_def Let_def list_ex_iff SetPrice_def time_Now_def
        split: option.splits sum.splits prod.splits dest!: items_INSERT_rows)
qed

lemma fst_if_neq:
  "(fst (if c then A else B) \<noteq> d) = ((c \<longrightarrow> fst A \<noteq> d) \<and> (\<not> c \<longrightarrow> fst B \<noteq> d))"
  by simp

text \<open>
  On a table that holds no row with an empty SKU, \<open>CreateItem\<close> never answers that
  the SKU exists already, whatever the request and whatever else the table holds: its
  check looks for the empty SKU.
\<close>

lemma CreateItem_never_reports_existing_SKU:
  assumes "\<not> list_ex (\<lambda>r. row_SKU r = []) tbl"
  shows "fst (CreateItem P vc cp ExistsBySKU save req w tbl) \<noteq>
           Inl (ErrorString ''item with this SKU already exists'')"
  using assms unfolding CreateItem_def ExistsBySKU_def items_EXISTS_sku_def Let_def
  by (simp add: fst_if_neq split: option.split sum.split prod.split split del: if_split)


end
